theory Spec2Isabelle
  imports Main "HOL-Library.AList" "HOL-Library.Char_ord" "HOL-Library.List_Lexorder"
begin

section \<open>The album creator of immich_auto_album.py\<close>

text \<open>
  The script talks to a remote photo service over HTTP, keeps its configuration in
  module-level variables and reports through the \<open>logging\<close> module. The embedding
  makes each of these explicit:
  \<^item> the module-level variables are the fields of the record \<open>globals\<close>;
  \<^item> the remote service, the requests sent to it, the log and the list objects that
    the script sorts in place form the record \<open>world\<close>, threaded through every call;
  \<^item> an exception is the left summand of the result, so that a \<open>try\<close> block is a
    case distinction on the class of the exception.
\<close>

subsection \<open>Exceptions\<close>

text \<open>
  The classes of the exceptions that the modelled code can raise. Two different classes
  are called \<open>HTTPError\<close>: the one of the \<open>requests\<close> package, raised by
  \<open>Response.raise_for_status\<close>, and the one of \<open>urllib.error\<close>. Neither derives from
  the other.
\<close>

datatype exn =
    Requests_HTTPError nat
  | Urllib_HTTPError
  | AssertionError
  | ValueError
  | UnboundLocalError
  | KeyError
  | IndexError
  | FileNotFoundError
  | SystemExit int

text \<open>
  Line 15 of the script is \<open>from urllib.error import HTTPError\<close>: in every
  \<open>except HTTPError\<close> clause of the script the name stands for the class of
  \<open>urllib.error\<close>. A clause catches an exception when the predicate holds of it.
\<close>

definition HTTPError :: "exn \<Rightarrow> bool" where
  "HTTPError e = (e = Urllib_HTTPError)"

definition AssertionError_or_HTTPError :: "exn \<Rightarrow> bool" where
  "AssertionError_or_HTTPError e = (e = AssertionError \<or> HTTPError e)"

subsection \<open>Data\<close>

text \<open>
  The dictionaries of the remote API are records; a field name carries the name of its
  dictionary as a prefix where the key alone (\<open>id\<close>, \<open>name\<close>, \<open>role\<close>) would clash.
\<close>

record asset =
  asset_id :: string
  originalPath :: string
  fileCreatedAt :: string
  isOffline :: bool

record user =
  user_id :: string
  user_name :: string
  user_email :: string

record share_user =
  key_user :: string
  key_role :: string

record add_result =
  res_success :: bool
  res_error :: string
  res_id :: string

record album_info =
  albumUsers :: "(string \<times> string) list"
  info_assets :: "asset list"

record album_dict =
  dict_id :: string
  albumName :: string
  assetCount :: int

record server_version =
  major :: int
  minor :: int
  patch :: int

text \<open>The class \<open>AlbumModel\<close>; \<open>None\<close> is Python's \<open>None\<close>.\<close>

record AlbumModel =
  album_id :: "string option"
  album_name :: string
  override_name :: "string option"
  description :: "string option"
  assets :: "asset list"
  share_with :: "share_user list"
  thumbnail_setting :: "string option"
  sort_order :: "string option"
  archive :: "bool option"
  comments_and_likes_enabled :: "bool option"

definition new_AlbumModel :: "string \<Rightarrow> AlbumModel" where
  "new_AlbumModel n =
     \<lparr>album_id = None, album_name = n, override_name = None, description = None,
      assets = [], share_with = [], thumbnail_setting = None, sort_order = None,
      archive = None, comments_and_likes_enabled = None\<rparr>"

text \<open>Truth value of an optional string in a condition: \<open>None\<close> and \<open>''\<close> are false.\<close>

definition truthy :: "string option \<Rightarrow> bool" where
  "truthy s = (case s of None \<Rightarrow> False | Some v \<Rightarrow> v \<noteq> [])"

definition get_final_name :: "AlbumModel \<Rightarrow> string" where
  "get_final_name a = (if truthy (override_name a) then the (override_name a) else album_name a)"

definition get_asset_uuids :: "AlbumModel \<Rightarrow> string list" where
  "get_asset_uuids a = map asset_id (assets a)"

text \<open>An identifier formatted into a URL by an f-string: \<open>None\<close> prints as \<open>None\<close>.\<close>

definition fmt :: "string option \<Rightarrow> string" where
  "fmt s = (case s of None \<Rightarrow> ''None'' | Some v \<Rightarrow> v)"

subsection \<open>Requests, responses and the world\<close>

datatype verb = GET | POST | PUT | PATCH | DELETE

text \<open>
  The JSON bodies that the script sends, one constructor for each shape. \<open>AlbumUsers\<close>
  holds the pairs of \<open>userId\<close> and \<open>role\<close>, \<open>DeleteAssets\<close> the \<open>force\<close> flag and the
  ids, \<open>ArchiveAssets\<close> the ids and \<open>isArchived\<close>; \<open>Dict\<close> is a body built key by key.
\<close>

datatype jv = JNull | JBool bool | JInt int | JStr string

datatype body =
    NoBody
  | CreateAlbum string
  | AddAssets "string list"
  | ShareRole string
  | AlbumUsers "(string \<times> string) list"
  | DeleteAssets bool "string list"
  | ArchiveAssets "string list" bool
  | Dict "(string \<times> jv) list"

record request =
  req_method :: verb
  req_url :: string
  req_body :: body

text \<open>The JSON bodies that the script reads from a response.\<close>

datatype payload =
    Empty
  | Version server_version
  | Items "asset list"
  | Info album_info
  | AddResults "add_result list"
  | Created string
  | Albums "album_dict list"
  | Libraries "string list"

record response =
  status_code :: nat
  reason :: string
  json :: payload

datatype level = WARNING | ERROR | FATAL

text \<open>
  The world. The remote service answers a request as a function of the requests it has
  received before; \<open>trace\<close> is the list of the requests sent so far, oldest first.
  \<open>log\<close> holds the messages of level warning and above, by their format string (debug
  and info messages are not recorded). \<open>heap\<close> holds the list objects that are sorted
  in place, by reference, and \<open>next_ref\<close> is the first reference not yet in use.
  \<open>entropy\<close> is the source of \<open>random.randint\<close>, \<open>draws\<close>
  the number of values drawn so far.
\<close>

record world =
  server :: "request list \<Rightarrow> request \<Rightarrow> response"
  trace :: "request list"
  log :: "(level \<times> string) list"
  heap :: "nat \<Rightarrow> asset list"
  next_ref :: nat
  entropy :: "nat \<Rightarrow> nat"
  draws :: nat

type_synonym 'a io = "world \<Rightarrow> (exn + 'a) \<times> world"

definition return :: "'a \<Rightarrow> 'a io" where
  "return x w = (Inr x, w)"

definition raise :: "exn \<Rightarrow> 'a io" where
  "raise e w = (Inl e, w)"

definition bind :: "'a io \<Rightarrow> ('a \<Rightarrow> 'b io) \<Rightarrow> 'b io" where
  "bind m f w = (case m w of (Inl e, w') \<Rightarrow> (Inl e, w') | (Inr x, w') \<Rightarrow> f x w')"

text \<open>\<open>try: m except C: h\<close>, where the clause catches the exceptions that satisfy \<open>C\<close>.\<close>

definition try_except :: "'a io \<Rightarrow> (exn \<Rightarrow> bool) \<Rightarrow> (exn \<Rightarrow> 'a io) \<Rightarrow> 'a io" where
  "try_except m C h w =
     (case m w of
        (Inl e, w') \<Rightarrow> if C e then h e w' else (Inl e, w')
      | (Inr x, w') \<Rightarrow> (Inr x, w'))"

definition logging :: "level \<Rightarrow> string \<Rightarrow> unit io" where
  "logging l m w = (Inr (), w\<lparr>log := log w @ [(l, m)]\<rparr>)"

definition send :: "verb \<Rightarrow> string \<Rightarrow> body \<Rightarrow> response io" where
  "send m u b w =
     (let r = \<lparr>req_method = m, req_url = u, req_body = b\<rparr>
      in (Inr (server w (trace w) r), w\<lparr>trace := trace w @ [r]\<rparr>))"

text \<open>A loop over a list whose body may raise: the first exception ends it.\<close>

fun for_each :: "'a list \<Rightarrow> ('a \<Rightarrow> unit io) \<Rightarrow> unit io" where
  "for_each [] f = return ()"
| "for_each (x # xs) f = bind (f x) (\<lambda>_. for_each xs f)"

subsection \<open>The module-level variables\<close>

record globals =
  root_url :: string
  number_of_images_per_request :: int
  number_of_assets_to_fetch_per_request :: int
  g_share_with :: "string list option"
  share_role :: string
  g_set_album_thumbnail :: "string option"
  g_archive :: bool
  album_order :: "string option"
  g_comments_and_likes_enabled :: bool
  comments_and_likes_disabled :: bool
  update_album_props_mode :: int
  version :: server_version
  users :: "user list"
  album :: AlbumModel

definition SHARE_ROLES :: "string list" where
  "SHARE_ROLES = [''editor'', ''viewer'']"

definition ALBUM_THUMBNAIL_RANDOM_ALL :: string where
  "ALBUM_THUMBNAIL_RANDOM_ALL = ''random-all''"

definition ALBUM_THUMBNAIL_SETTINGS :: "string list" where
  "ALBUM_THUMBNAIL_SETTINGS = [''first'', ''last'', ''random'']"

definition ALBUM_THUMBNAIL_SETTINGS_GLOBAL :: "string list" where
  "ALBUM_THUMBNAIL_SETTINGS_GLOBAL = ALBUM_THUMBNAIL_SETTINGS @ [ALBUM_THUMBNAIL_RANDOM_ALL]"

definition ALBUM_THUMBNAIL_STATIC_INDICES :: "(string \<times> int) list" where
  "ALBUM_THUMBNAIL_STATIC_INDICES = [(''first'', 0), (''last'', -1)]"

subsection \<open>The response check\<close>

text \<open>
  \<open>Response.raise_for_status\<close> of the \<open>requests\<close> package raises the package's own
  \<open>HTTPError\<close> for a status from 400 to 599 and returns otherwise.
\<close>

definition raise_for_status :: "response \<Rightarrow> unit io" where
  "raise_for_status r =
     (if 400 \<le> status_code r \<and> status_code r < 600
      then raise (Requests_HTTPError (status_code r)) else return ())"

text \<open>The truth value of a decoded body: no body and the empty list are false.\<close>

definition nonempty :: "payload \<Rightarrow> bool" where
  "nonempty p =
     (case p of Empty \<Rightarrow> False | AddResults rs \<Rightarrow> rs \<noteq> [] | Albums al \<Rightarrow> al \<noteq> []
      | Libraries ls \<Rightarrow> ls \<noteq> [] | _ \<Rightarrow> True)"

definition check_api_response :: "response \<Rightarrow> unit io" where
  "check_api_response r =
     bind (try_except (raise_for_status r) HTTPError
             (\<lambda>_. if nonempty (json r)
                   then logging ERROR ''Error in API call: %s''
                   else logging ERROR ''API response did not contain a payload''))
          (\<lambda>_. raise_for_status r)"

subsection \<open>Albums\<close>

definition delete_album :: "globals \<Rightarrow> album_dict \<Rightarrow> bool io" where
  "delete_album g album_delete =
     bind (send DELETE (root_url g @ ''albums'' @ ''/'' @ dict_id album_delete) NoBody)
       (\<lambda>r. try_except
               (bind (check_api_response r) (\<lambda>_. return True))
               HTTPError
               (\<lambda>_. bind (logging ERROR ''Error deleting album %s: %s'') (\<lambda>_. return False)))"

text \<open>
  Reading a response body of the expected shape. A body of another shape, or no body,
  fails when it is read, here with \<open>KeyError\<close>; no clause of the script catches an
  exception of this kind, whatever its class.
\<close>

definition created_id :: "response \<Rightarrow> string io" where
  "created_id r = (case json r of Created i \<Rightarrow> return i | _ \<Rightarrow> raise KeyError)"

definition add_results :: "response \<Rightarrow> add_result list io" where
  "add_results r = (case json r of AddResults rs \<Rightarrow> return rs | _ \<Rightarrow> raise KeyError)"

definition info_of :: "response \<Rightarrow> album_info io" where
  "info_of r = (case json r of Info i \<Rightarrow> return i | _ \<Rightarrow> raise KeyError)"

definition items_of :: "response \<Rightarrow> asset list io" where
  "items_of r = (case json r of Items xs \<Rightarrow> return xs | _ \<Rightarrow> raise KeyError)"

definition libraries_of :: "response \<Rightarrow> string list io" where
  "libraries_of r = (case json r of Libraries ls \<Rightarrow> return ls | _ \<Rightarrow> raise KeyError)"

definition create_album :: "globals \<Rightarrow> string \<Rightarrow> string io" where
  "create_album g album_name_to_create =
     bind (send POST (root_url g @ ''albums'') (CreateAlbum album_name_to_create))
       (\<lambda>r. bind (check_api_response r) (\<lambda>_. created_id r))"

definition fetch_album_info :: "globals \<Rightarrow> string option \<Rightarrow> album_info io" where
  "fetch_album_info g album_id_for_info =
     bind (send GET (root_url g @ ''albums/'' @ fmt album_id_for_info) NoBody)
       (\<lambda>r. bind (check_api_response r) (\<lambda>_. info_of r))"

subsection \<open>Adding assets to an album\<close>

text \<open>
  \<open>range(0, len(full_list), chunk_size)\<close> raises \<open>ValueError\<close> for a step of zero and
  is empty for a negative step; for a positive step it holds the multiples of the step
  below the length. The slice \<open>full_list[j:j + chunk_size]\<close> is \<open>take\<close> after \<open>drop\<close>.
\<close>

definition divide_chunks :: "'a list \<Rightarrow> int \<Rightarrow> exn + 'a list list" where
  "divide_chunks full_list chunk_size =
     (if chunk_size = 0 then Inl ValueError
      else if chunk_size < 0 then Inr []
      else let n = nat chunk_size
           in Inr (map (\<lambda>k. take n (drop (k * n) full_list))
                       [0 ..< (length full_list + n - 1) div n]))"

definition lift :: "exn + 'a \<Rightarrow> 'a io" where
  "lift v = (case v of Inl e \<Rightarrow> raise e | Inr x \<Rightarrow> return x)"

text \<open>The loop over the entries of one response, with the list of added ids so far.\<close>

fun scan_response :: "add_result list \<Rightarrow> string list \<Rightarrow> string list io" where
  "scan_response [] asset_list_added = return asset_list_added"
| "scan_response (res # rest) asset_list_added =
     (if \<not> res_success res then
        (if res_error res \<noteq> ''duplicate''
         then bind (logging WARNING ''Error adding an asset to an album: %s'')
                (\<lambda>_. scan_response rest asset_list_added)
         else scan_response rest asset_list_added)
      else scan_response rest (asset_list_added @ [res_id res]))"

text \<open>The loop over the chunks.\<close>

fun add_chunks :: "globals \<Rightarrow> string option \<Rightarrow> string list list \<Rightarrow> string list \<Rightarrow> string list io" where
  "add_chunks g assets_add_album_id [] asset_list_added = return asset_list_added"
| "add_chunks g assets_add_album_id (assets_chunk # rest) asset_list_added =
     bind (send PUT (root_url g @ ''albums'' @ ''/'' @ fmt assets_add_album_id @ ''/assets'')
             (AddAssets assets_chunk))
       (\<lambda>r. bind (check_api_response r)
         (\<lambda>_. bind (add_results r)
           (\<lambda>response. bind (scan_response response asset_list_added)
             (\<lambda>added. add_chunks g assets_add_album_id rest added))))"

definition add_assets_to_album :: "globals \<Rightarrow> string option \<Rightarrow> string list \<Rightarrow> string list io" where
  "add_assets_to_album g assets_add_album_id asset_list =
     bind (lift (divide_chunks asset_list (number_of_images_per_request g)))
       (\<lambda>assets_chunked. add_chunks g assets_add_album_id assets_chunked [])"

subsection \<open>Sharing\<close>

fun find_user_by_name_or_email :: "string \<Rightarrow> user list \<Rightarrow> user option" where
  "find_user_by_name_or_email name_or_email [] = None"
| "find_user_by_name_or_email name_or_email (u # user_list) =
     (if name_or_email = user_name u \<or> name_or_email = user_email u then Some u
      else find_user_by_name_or_email name_or_email user_list)"

definition unshare_album_with_user :: "globals \<Rightarrow> string option \<Rightarrow> string \<Rightarrow> unit io" where
  "unshare_album_with_user g album_id_to_unshare unshare_user_id =
     bind (send DELETE (root_url g @ ''albums/'' @ fmt album_id_to_unshare @ ''/user/'' @ unshare_user_id) NoBody)
       check_api_response"

text \<open>
  Both functions below assert \<open>share_role in SHARE_ROLES\<close>, where \<open>share_role\<close> is the
  module-level variable holding the value of \<open>--share-role\<close>; neither has a parameter of
  that name.
\<close>

definition update_album_share_user_role :: "globals \<Rightarrow> string option \<Rightarrow> string \<Rightarrow> string \<Rightarrow> unit io" where
  "update_album_share_user_role g album_id_to_share share_user_id share_user_role =
     (if share_role g \<notin> set SHARE_ROLES then raise AssertionError
      else bind (send PUT (root_url g @ ''albums/'' @ fmt album_id_to_share @ ''/user/'' @ share_user_id)
                   (ShareRole share_user_role))
             check_api_response)"

definition share_album_with_user_and_role :: "globals \<Rightarrow> string option \<Rightarrow> string list \<Rightarrow> string \<Rightarrow> unit io" where
  "share_album_with_user_and_role g album_id_to_share user_ids_to_share_with user_share_role =
     (if share_role g \<notin> set SHARE_ROLES then raise AssertionError
      else bind (send PUT (root_url g @ ''albums/'' @ fmt album_id_to_share @ ''/users'')
                   (AlbumUsers (map (\<lambda>user_id_to_share_with. (user_id_to_share_with, user_share_role))
                                    user_ids_to_share_with)))
             check_api_response)"

text \<open>
  A Python dictionary keeps its keys in the order of their first insertion; it is an
  association list, stored into with \<open>AList.update\<close> and read with \<open>map_of\<close>.

  The first loop of \<open>update_album_shared_state\<close>: it runs over \<open>album.share_with\<close> and
  looks the users up in \<open>users\<close>, both module-level variables.
\<close>

fun expected_roles :: "user list \<Rightarrow> share_user list \<Rightarrow> (string \<times> string) list \<Rightarrow> (string \<times> string) list io" where
  "expected_roles us [] share_users_to_roles_expected = return share_users_to_roles_expected"
| "expected_roles us (su # rest) share_users_to_roles_expected =
     (case find_user_by_name_or_email (key_user su) us of
        None \<Rightarrow> bind (logging WARNING ''User %s to share album %s with does not exist!'')
                  (\<lambda>_. expected_roles us rest share_users_to_roles_expected)
      | Some share_user_in_immich \<Rightarrow>
          expected_roles us rest
            (AList.update (user_id share_user_in_immich) (key_role su) share_users_to_roles_expected))"

text \<open>The loop comparing expectation with reality, with the users grouped by role so far.\<close>

fun compare_roles :: "globals \<Rightarrow> AlbumModel \<Rightarrow> (string \<times> string) list \<Rightarrow> (string \<times> string) list
    \<Rightarrow> (string \<times> string list) list \<Rightarrow> (string \<times> string list) list io" where
  "compare_roles g album_to_share album_share_info [] share_roles_to_users_expected =
     return share_roles_to_users_expected"
| "compare_roles g album_to_share album_share_info ((user_to_share_with, share_role_expected) # rest)
       share_roles_to_users_expected =
     (case map_of album_share_info user_to_share_with of
        None \<Rightarrow>
          compare_roles g album_to_share album_share_info rest
            (AList.update share_role_expected
               ((case map_of share_roles_to_users_expected share_role_expected of
                   None \<Rightarrow> [] | Some l \<Rightarrow> l) @ [user_to_share_with])
               share_roles_to_users_expected)
      | Some actual \<Rightarrow>
          if actual \<noteq> share_role_expected then
            bind (try_except
                    (update_album_share_user_role g (album_id album_to_share) user_to_share_with
                       share_role_expected)
                    HTTPError
                    (\<lambda>ex. logging WARNING ''Sharing: Error updating share role for user %s in album %s to %s''))
              (\<lambda>_. compare_roles g album_to_share album_share_info rest share_roles_to_users_expected)
          else compare_roles g album_to_share album_share_info rest share_roles_to_users_expected)"

definition unshare_loop :: "globals \<Rightarrow> AlbumModel \<Rightarrow> (string \<times> string) list \<Rightarrow> string list \<Rightarrow> unit io" where
  "unshare_loop g album_to_share share_users_to_roles_expected shared_users =
     for_each shared_users
       (\<lambda>shared_user.
          if map_of share_users_to_roles_expected shared_user = None then
            try_except (unshare_album_with_user g (album_id album_to_share) shared_user) HTTPError
              (\<lambda>ex. logging WARNING ''Sharing: Error removing user %s from album %s'')
          else return ())"

definition share_loop :: "globals \<Rightarrow> AlbumModel \<Rightarrow> (string \<times> string list) list \<Rightarrow> unit io" where
  "share_loop g album_to_share share_roles_to_users_expected =
     for_each share_roles_to_users_expected
       (\<lambda>(share_role_group, share_users).
          try_except
            (share_album_with_user_and_role g (album_id album_to_share) share_users share_role_group)
            AssertionError_or_HTTPError
            (\<lambda>ex. logging WARNING ''Error sharing album %s for users %s in role %s''))"

text \<open>The dictionary built from a list of pairs by storing them one after the other.\<close>

definition dict_of :: "('k \<times> 'v) list \<Rightarrow> ('k \<times> 'v) list" where
  "dict_of ps = fold (\<lambda>(k, v) d. AList.update k v d) ps []"

definition update_album_shared_state :: "globals \<Rightarrow> AlbumModel \<Rightarrow> bool \<Rightarrow> unit io" where
  "update_album_shared_state g album_to_share unshare_users =
     bind (expected_roles (users g) (share_with (album g)) [])
       (\<lambda>share_users_to_roles_expected.
          if length share_users_to_roles_expected = 0 \<and> \<not> unshare_users then return ()
          else
            bind (fetch_album_info g (album_id album_to_share))
              (\<lambda>album_to_share_info.
                 let album_share_info = dict_of (albumUsers album_to_share_info) in
                 bind (compare_roles g album_to_share album_share_info share_users_to_roles_expected [])
                   (\<lambda>share_roles_to_users_expected.
                      bind (if unshare_users
                            then unshare_loop g album_to_share share_users_to_roles_expected
                                   (map fst album_share_info)
                            else return ())
                        (\<lambda>_. if length share_roles_to_users_expected > 0
                              then share_loop g album_to_share share_roles_to_users_expected
                              else return ()))))"

subsection \<open>Thumbnails and album properties\<close>

text \<open>
  The subscript \<open>xs[i]\<close>: an index from 0 on counts from the front, a negative one from
  the end, and an index outside the list raises \<open>IndexError\<close>.
\<close>

definition py_index :: "'a list \<Rightarrow> int \<Rightarrow> 'a io" where
  "py_index xs i =
     (if 0 \<le> i then
        (if i < int (length xs) then return (xs ! nat i) else raise IndexError)
      else
        (if - int (length xs) \<le> i then return (xs ! nat (int (length xs) + i))
         else raise IndexError))"

text \<open>
  \<open>random.randint(a, b)\<close> returns one of the integers from \<open>a\<close> to \<open>b\<close>, here the one
  that the next value of the entropy source selects, and raises \<open>ValueError\<close> for an
  empty range.
\<close>

definition randint :: "int \<Rightarrow> int \<Rightarrow> int io" where
  "randint a b w =
     (if b < a then (Inl ValueError, w)
      else (Inr (a + int (entropy w (draws w) mod nat (b - a + 1))), w\<lparr>draws := Suc (draws w)\<rparr>))"

text \<open>
  The parameter \<open>thumbnail_asset_list\<close> is a reference to the caller's list object. The
  assignment \<open>thumbnail_assets = thumbnail_asset_list\<close> binds a second name to the same
  object, and \<open>list.sort\<close>, a stable sort, replaces the contents of that object.
\<close>

definition list_sort :: "nat \<Rightarrow> unit io" where
  "list_sort r w = (Inr (), w\<lparr>heap := (heap w)(r := sort_key fileCreatedAt (heap w r))\<rparr>)"

definition deref :: "nat \<Rightarrow> asset list io" where
  "deref r w = (Inr (heap w r), w)"

definition new_list :: "asset list \<Rightarrow> nat io" where
  "new_list xs w =
     (Inr (next_ref w), w\<lparr>heap := (heap w)(next_ref w := xs), next_ref := Suc (next_ref w)\<rparr>)"

definition choose_thumbnail :: "string \<Rightarrow> nat \<Rightarrow> asset option io" where
  "choose_thumbnail thumbnail_setting' thumbnail_asset_list =
     (if thumbnail_setting' \<notin> set ALBUM_THUMBNAIL_SETTINGS_GLOBAL then
        bind (deref thumbnail_asset_list)
          (\<lambda>xs. return (find (\<lambda>asset. originalPath asset = thumbnail_setting') xs))
      else
        let thumbnail_assets = thumbnail_asset_list in
        bind (deref thumbnail_assets)
          (\<lambda>xs.
             if length xs > 0 then
               bind (list_sort thumbnail_assets)
                 (\<lambda>_. bind (case map_of ALBUM_THUMBNAIL_STATIC_INDICES thumbnail_setting' of
                               None \<Rightarrow> randint 0 (int (length xs) - 1)
                             | Some i \<Rightarrow> return i)
                   (\<lambda>idx. bind (deref thumbnail_assets)
                     (\<lambda>sorted_assets. bind (py_index sorted_assets idx) (\<lambda>a. return (Some a)))))
             else return None))"

definition opt_jv :: "string option \<Rightarrow> jv" where
  "opt_jv s = (case s of None \<Rightarrow> JNull | Some v \<Rightarrow> JStr v)"

text \<open>
  \<open>update_album_properties\<close> reads the description and the sort order that it sends
  from the module-level variable \<open>album\<close>, and tests those of its parameter.
\<close>

definition update_album_properties :: "globals \<Rightarrow> AlbumModel \<Rightarrow> unit io" where
  "update_album_properties g album_to_update =
     bind (if truthy (thumbnail_setting album_to_update)
              \<and> thumbnail_setting album_to_update \<noteq> Some ALBUM_THUMBNAIL_RANDOM_ALL
           then
             bind (fetch_album_info g (album_id album_to_update))
               (\<lambda>album_to_update_info.
                  bind (new_list (info_assets album_to_update_info))
                    (\<lambda>album_assets.
                       bind (choose_thumbnail (the (thumbnail_setting album_to_update)) album_assets)
                         (\<lambda>thumbnail_asset.
                            case thumbnail_asset of
                              Some a \<Rightarrow> return [(''albumThumbnailAssetId'', JStr (asset_id a))]
                            | None \<Rightarrow>
                                bind (logging WARNING ''Unable to determine thumbnail for setting '%s' in album %s'')
                                  (\<lambda>_. return []))))
           else return [])
       (\<lambda>data0.
          let data1 = (if truthy (description album_to_update)
                       then AList.update ''description'' (opt_jv (description (album g))) data0
                       else data0);
              data2 = (if truthy (sort_order album_to_update)
                       then AList.update ''order'' (opt_jv (sort_order (album g))) data1
                       else data1);
              data = (case comments_and_likes_enabled album_to_update of
                        Some b \<Rightarrow> AList.update ''isActivityEnabled'' (JBool b) data2
                      | None \<Rightarrow> data2)
          in if length data > 0
             then bind (send PATCH (root_url g @ ''albums/'' @ fmt (album_id album_to_update)) (Dict data))
                    check_api_response
             else return ())"

subsection \<open>The main loop\<close>

text \<open>
  The state of the loop that creates the albums: the dictionary from album names to
  ids, the list of the albums created in this run and the ids of the assets added.
\<close>

record loop_state =
  album_to_id :: "(string \<times> string) list"
  created_albums :: "AlbumModel list"
  asset_uuids_added :: "string list"

text \<open>
  One pass through the body of the loop. The loop variable is the module-level variable
  \<open>album\<close>; an assignment to \<open>album.id\<close> changes the one object that the loop variable
  and the dictionary of albums share. The albums of the dictionary differ in their names,
  so that \<open>album in created_albums\<close>, a test for the same object, is a test for an equal
  value.
\<close>

definition loop_body :: "globals \<Rightarrow> AlbumModel \<Rightarrow> loop_state \<Rightarrow> loop_state io" where
  "loop_body g a s =
     bind (case map_of (album_to_id s) (get_final_name a) of
             None \<Rightarrow>
               bind (create_album g (get_final_name a))
                 (\<lambda>i. let a' = a\<lparr>album_id := Some i\<rparr>
                       in return (a', s\<lparr>album_to_id := AList.update (get_final_name a') i (album_to_id s),
                                         created_albums := created_albums s @ [a']\<rparr>))
           | Some i \<Rightarrow> return (a\<lparr>album_id := Some i\<rparr>, s))
       (\<lambda>(a', s1).
          let g' = g\<lparr>album := a'\<rparr> in
          bind (add_assets_to_album g' (album_id a') (get_asset_uuids a'))
            (\<lambda>assets_added.
               let s2 = (if length assets_added > 0
                         then s1\<lparr>asset_uuids_added := asset_uuids_added s1 @ assets_added\<rparr>
                         else s1)
               in bind (if update_album_props_mode g' > 0 \<or> a' \<in> set (created_albums s2)
                        then try_except (update_album_properties g' a') HTTPError
                               (\<lambda>e. logging ERROR ''Error updating properties for album %s: %s'')
                        else return ())
                    (\<lambda>_. bind (if update_album_props_mode g' = 2 \<or> a' \<in> set (created_albums s2)
                                then update_album_shared_state g' a' True
                                else return ())
                      (\<lambda>_. return s2))))"

fun main_loop :: "globals \<Rightarrow> AlbumModel list \<Rightarrow> loop_state \<Rightarrow> loop_state io" where
  "main_loop g [] s = return s"
| "main_loop g (a # albums_to_create) s =
     bind (loop_body g a s) (\<lambda>s'. main_loop g albums_to_create s')"

subsection \<open>Building the album models\<close>

text \<open>\<open>str.split\<close> on a one-character separator, \<open>str.join\<close> and \<open>str.strip\<close>.\<close>

fun split :: "char \<Rightarrow> string \<Rightarrow> string list" where
  "split c [] = [[]]"
| "split c (x # xs) =
     (if x = c then [] # split c xs
      else (case split c xs of [] \<Rightarrow> [[x]] | h # t \<Rightarrow> (x # h) # t))"













subsection \<open>Searching assets\<close>

text \<open>
  The search runs a \<open>while\<close> loop that ends only when the service returns a page that is
  not full. The loop takes fuel, one unit for each further page; \<open>None\<close> is the run that
  has not ended when the fuel is used up.
\<close>

type_synonym 'a run = "world \<Rightarrow> ((exn + 'a) \<times> world) option"

fun fetch_pages :: "nat \<Rightarrow> globals \<Rightarrow> (string \<times> jv) list \<Rightarrow> int \<Rightarrow> int \<Rightarrow> asset list \<Rightarrow> asset list
    \<Rightarrow> asset list run" where
  "fetch_pages 0 g body' size' page assets_received assets_found w =
     (if int (length assets_received) = size' then None else Some (Inr assets_found, w))"
| "fetch_pages (Suc fuel) g body' size' page assets_received assets_found w =
     (if int (length assets_received) = size' then
        (let page' = page + 1; body'' = AList.update ''page'' (JInt page') body' in
         case bind (send POST (root_url g @ ''search/metadata'') (Dict body''))
                (\<lambda>r. bind (check_api_response r) (\<lambda>_. items_of r)) w of
           (Inl e, w') \<Rightarrow> Some (Inl e, w')
         | (Inr received, w') \<Rightarrow>
             fetch_pages fuel g body'' size' page' received (assets_found @ received) w')
      else Some (Inr assets_found, w))"

definition fetch_assets_with_options :: "nat \<Rightarrow> globals \<Rightarrow> (string \<times> jv) list \<Rightarrow> asset list run" where
  "fetch_assets_with_options fuel g search_options w =
     (let size' = min 1000 (number_of_assets_to_fetch_per_request g);
          body' = AList.update ''page'' (JStr ''1'') (AList.update ''size'' (JInt size') search_options)
      in case bind (send POST (root_url g @ ''search/metadata'') (Dict body'))
                (\<lambda>r. bind (raise_for_status r) (\<lambda>_. items_of r)) w of
           (Inl e, w') \<Rightarrow> Some (Inl e, w')
         | (Inr received, w') \<Rightarrow> fetch_pages fuel g body' size' 1 received ([] @ received) w')"

subsection \<open>Removing offline assets\<close>

definition delete_assets :: "globals \<Rightarrow> asset list \<Rightarrow> bool \<Rightarrow> unit io" where
  "delete_assets g assets_to_delete force =
     bind (send DELETE (root_url g @ ''assets'') (DeleteAssets force (map asset_id assets_to_delete)))
       check_api_response"

definition trigger_offline_asset_removal_since_minor_version_116 :: "nat \<Rightarrow> globals \<Rightarrow> unit run" where
  "trigger_offline_asset_removal_since_minor_version_116 fuel g w =
     (case fetch_assets_with_options fuel g [(''trashedAfter'', JStr ''1970-01-01T00:00:00.000Z'')] w of
        None \<Rightarrow> None
      | Some (Inl e, w') \<Rightarrow> Some (Inl e, w')
      | Some (Inr trashed_assets, w') \<Rightarrow>
          (let offline_assets = filter isOffline trashed_assets
           in if length offline_assets > 0 then Some (delete_assets g offline_assets True w')
              else Some (Inr (), w')))"

definition fetch_libraries :: "globals \<Rightarrow> string list io" where
  "fetch_libraries g =
     bind (send GET (root_url g @ ''libraries'') NoBody)
       (\<lambda>r. bind (check_api_response r) (\<lambda>_. libraries_of r))"

definition trigger_offline_asset_removal_async :: "globals \<Rightarrow> string \<Rightarrow> unit io" where
  "trigger_offline_asset_removal_async g library_id =
     bind (send POST (root_url g @ ''libraries/'' @ library_id @ ''/removeOffline'') NoBody)
       (\<lambda>r. if status_code r = 403
             then logging FATAL ''--sync-mode 2 requires an Admin User API key!''
             else check_api_response r)"

definition trigger_offline_asset_removal_pre_minor_version_116 :: "globals \<Rightarrow> unit io" where
  "trigger_offline_asset_removal_pre_minor_version_116 g =
     bind (fetch_libraries g)
       (\<lambda>libraries. for_each libraries (\<lambda>library. trigger_offline_asset_removal_async g library))"

definition trigger_offline_asset_removal :: "nat \<Rightarrow> globals \<Rightarrow> unit run" where
  "trigger_offline_asset_removal fuel g w =
     (if major (version g) = 1 \<and> minor (version g) < 116
      then Some (trigger_offline_asset_removal_pre_minor_version_116 g w)
      else trigger_offline_asset_removal_since_minor_version_116 fuel g w)"

subsection \<open>After the main loop\<close>

definition albums_of :: "response \<Rightarrow> album_dict list io" where
  "albums_of r = (case json r of Albums al \<Rightarrow> return al | _ \<Rightarrow> raise KeyError)"

definition fetch_albums :: "globals \<Rightarrow> album_dict list io" where
  "fetch_albums g =
     bind (send GET (root_url g @ ''albums'') NoBody)
       (\<lambda>r. bind (check_api_response r) (\<lambda>_. albums_of r))"

definition set_assets_archived :: "globals \<Rightarrow> string list \<Rightarrow> bool \<Rightarrow> unit io" where
  "set_assets_archived g asset_ids_to_archive is_archived =
     bind (send PUT (root_url g @ ''assets'') (ArchiveAssets asset_ids_to_archive is_archived))
       check_api_response"

text \<open>
  The deletion of the empty albums (lines 1351 to 1367): the loop counts the empty
  albums and those of them that \<open>delete_album\<close> reports as deleted.
\<close>

fun delete_empty :: "globals \<Rightarrow> album_dict list \<Rightarrow> int \<Rightarrow> int \<Rightarrow> (int \<times> int) io" where
  "delete_empty g [] empty_album_count cleaned_album_count =
     return (cleaned_album_count, empty_album_count)"
| "delete_empty g (a # albums) empty_album_count cleaned_album_count =
     (if assetCount a = 0 then
        bind (delete_album g a)
          (\<lambda>deleted. delete_empty g albums (empty_album_count + 1)
                        (if deleted then cleaned_album_count + 1 else cleaned_album_count))
      else delete_empty g albums empty_album_count cleaned_album_count)"

definition delete_empty_albums :: "globals \<Rightarrow> (int \<times> int) io" where
  "delete_empty_albums g = bind (fetch_albums g) (\<lambda>albums. delete_empty g albums 0 0)"

subsection \<open>Start of the script\<close>










section \<open>Notions used in the statements\<close>

text \<open>
  The answers of the service to a list of requests sent one after the other, starting
  from the history \<open>h\<close>.
\<close>

fun answers :: "(request list \<Rightarrow> request \<Rightarrow> response) \<Rightarrow> request list \<Rightarrow> request list \<Rightarrow> response list" where
  "answers srv h [] = []"
| "answers srv h (r # rs) = srv h r # answers srv (h @ [r]) rs"

text \<open>A response that \<open>raise_for_status\<close> accepts.\<close>

definition ok :: "response \<Rightarrow> bool" where
  "ok r = (\<not> (400 \<le> status_code r \<and> status_code r < 600))"

text \<open>The request that adds one chunk of assets to an album.\<close>

definition add_request :: "globals \<Rightarrow> string option \<Rightarrow> string list \<Rightarrow> request" where
  "add_request g aid c =
     \<lparr>req_method = PUT, req_url = root_url g @ ''albums'' @ ''/'' @ fmt aid @ ''/assets'',
      req_body = AddAssets c\<rparr>"

text \<open>
  The entries of a response to it, the ids that the entries report as added, and the
  warnings for the entries that report an error other than \<open>duplicate\<close>.
\<close>

definition reported :: "response \<Rightarrow> add_result list" where
  "reported r = (case json r of AddResults rs \<Rightarrow> rs | _ \<Rightarrow> [])"

definition added :: "add_result list \<Rightarrow> string list" where
  "added rs = map res_id (filter res_success rs)"

definition add_warnings :: "add_result list \<Rightarrow> (level \<times> string) list" where
  "add_warnings rs =
     map (\<lambda>_. (WARNING, ''Error adding an asset to an album: %s''))
       (filter (\<lambda>res. \<not> res_success res \<and> res_error res \<noteq> ''duplicate'') rs)"

section \<open>Example runs\<close>

text \<open>A world in which nothing has happened yet, for a given service.\<close>

definition fresh_world :: "(request list \<Rightarrow> request \<Rightarrow> response) \<Rightarrow> world" where
  "fresh_world srv = \<lparr>server = srv, trace = [], log = [], heap = (\<lambda>_. []), next_ref = 0,
                      entropy = (\<lambda>_. 0), draws = 0\<rparr>"

text \<open>The module-level variables after a start with the default options.\<close>

definition g0 :: globals where
  "g0 = \<lparr>root_url = ''http://immich/api/'', number_of_images_per_request = 2000,
         number_of_assets_to_fetch_per_request = 5000, g_share_with = None, share_role = ''viewer'',
         g_set_album_thumbnail = None, g_archive = False, album_order = None,
         g_comments_and_likes_enabled = False, comments_and_likes_disabled = False,
         update_album_props_mode = 0, version = \<lparr>major = 1, minor = 120, patch = 0\<rparr>,
         users = [], album = new_AlbumModel []\<rparr>"

definition s0 :: loop_state where
  "s0 = \<lparr>album_to_id = [], created_albums = [], asset_uuids_added = []\<rparr>"

text \<open>A service that answers every request with status 200 and no body.\<close>

definition server_ok :: "request list \<Rightarrow> request \<Rightarrow> response" where
  "server_ok h r = \<lparr>status_code = 200, reason = ''OK'', json = Empty\<rparr>"

text \<open>A service that answers every request with status 404.\<close>

definition server_not_found :: "request list \<Rightarrow> request \<Rightarrow> response" where
  "server_not_found h r = \<lparr>status_code = 404, reason = ''Not Found'', json = Empty\<rparr>"

text \<open>A service that creates albums and fails on every update of an album.\<close>

definition server_patch_fails :: "request list \<Rightarrow> request \<Rightarrow> response" where
  "server_patch_fails h r =
     (if req_method r = PATCH
      then \<lparr>status_code = 500, reason = ''Internal Server Error'', json = Empty\<rparr>
      else \<lparr>status_code = 201, reason = ''Created'', json = Created ''id-a''\<rparr>)"

text \<open>A service with two empty albums that refuses to delete an album.\<close>

definition server_two_empty_albums :: "request list \<Rightarrow> request \<Rightarrow> response" where
  "server_two_empty_albums h r =
     (if req_method r = GET
      then \<lparr>status_code = 200, reason = ''OK'',
            json = Albums [\<lparr>dict_id = ''a1'', albumName = ''Trip'', assetCount = 0\<rparr>,
                           \<lparr>dict_id = ''a2'', albumName = ''Home'', assetCount = 0\<rparr>]\<rparr>
      else \<lparr>status_code = 403, reason = ''Forbidden'', json = Empty\<rparr>)"

text \<open>Two albums to create; the first one has comments and likes switched on.\<close>

definition two_albums :: "AlbumModel list" where
  "two_albums = [(new_AlbumModel ''A'')\<lparr>comments_and_likes_enabled := Some True\<rparr>, new_AlbumModel ''B'']"

text \<open>
  The example of sharing convergence: the album is shared with userA as editor, and
  should be shared with userA and userB as viewers.
\<close>

definition user_a :: user where
  "user_a = \<lparr>user_id = ''ua'', user_name = ''userA'', user_email = ''a@example.org''\<rparr>"

definition user_b :: user where
  "user_b = \<lparr>user_id = ''ub'', user_name = ''userB'', user_email = ''b@example.org''\<rparr>"

definition trip :: AlbumModel where
  "trip = (new_AlbumModel ''Trip'')\<lparr>album_id := Some ''t1'',
      share_with := [\<lparr>key_user = ''userA'', key_role = ''viewer''\<rparr>,
                     \<lparr>key_user = ''userB'', key_role = ''viewer''\<rparr>]\<rparr>"

definition server_shared_with_a :: "request list \<Rightarrow> request \<Rightarrow> response" where
  "server_shared_with_a h r =
     (if req_method r = GET
      then \<lparr>status_code = 200, reason = ''OK'',
            json = Info \<lparr>albumUsers = [(''ua'', ''editor'')], info_assets = []\<rparr>\<rparr>
      else \<lparr>status_code = 200, reason = ''OK'', json = Empty\<rparr>)"

text \<open>The same album on a service that fails on the update of a role.\<close>

definition server_role_update_fails :: "request list \<Rightarrow> request \<Rightarrow> response" where
  "server_role_update_fails h r =
     (if req_method r = GET
      then \<lparr>status_code = 200, reason = ''OK'',
            json = Info \<lparr>albumUsers = [(''ua'', ''editor'')], info_assets = []\<rparr>\<rparr>
      else if req_body r = ShareRole ''viewer''
      then \<lparr>status_code = 500, reason = ''Internal Server Error'', json = Empty\<rparr>
      else \<lparr>status_code = 200, reason = ''OK'', json = Empty\<rparr>)"

text \<open>The module-level variables when the loop variable \<open>album\<close> is bound to \<open>a\<close>.\<close>

definition g_sharing :: "AlbumModel \<Rightarrow> globals" where
  "g_sharing a = g0\<lparr>users := [user_a, user_b], album := a\<rparr>"

text \<open>
  A service that reports the asset \<open>x2\<close> as a duplicate, fails on \<open>x3\<close> and adds every
  other asset; the script sends at most two assets with one request.
\<close>

definition result_for :: "string \<Rightarrow> add_result" where
  "result_for i =
     (if i = ''x2'' then \<lparr>res_success = False, res_error = ''duplicate'', res_id = i\<rparr>
      else if i = ''x3'' then \<lparr>res_success = False, res_error = ''not_found'', res_id = i\<rparr>
      else \<lparr>res_success = True, res_error = [], res_id = i\<rparr>)"

definition server_add :: "request list \<Rightarrow> request \<Rightarrow> response" where
  "server_add h r =
     \<lparr>status_code = 200, reason = ''OK'',
      json = (case req_body r of AddAssets c \<Rightarrow> AddResults (map result_for c) | _ \<Rightarrow> Empty)\<rparr>"

definition g_two_per_request :: globals where
  "g_two_per_request = g0\<lparr>number_of_images_per_request := 2\<rparr>"

text \<open>Four photos, two of them taken in 2020 and two in 2021, in a list at reference 0.\<close>

definition photo :: "string \<Rightarrow> string \<Rightarrow> asset" where
  "photo i t = \<lparr>asset_id = i, originalPath = ''/lib/'' @ i @ ''.jpg'', fileCreatedAt = t, isOffline = False\<rparr>"

definition photos :: "asset list" where
  "photos = [photo ''p1'' ''2021'', photo ''p2'' ''2020'', photo ''p3'' ''2020'', photo ''p4'' ''2021'']"

definition world_photos :: world where
  "world_photos = (fresh_world server_ok)\<lparr>heap := (\<lambda>_. [])(0 := photos), next_ref := 1, entropy := (\<lambda>_. 6)\<rparr>"

subsection \<open>Examples for the archive import and for the start\<close>






text \<open>
  A version below 1.106.0, in the order of versions: by major, then minor, then patch
  number (following the words of the specification).
\<close>

definition below_1_106_0 :: "server_version \<Rightarrow> bool" where
  "below_1_106_0 v =
     (major v < 1 \<or> (major v = 1 \<and> (minor v < 106 \<or> (minor v = 106 \<and> patch v < 0))))"







subsection \<open>Requests and examples for the removal of offline assets\<close>

text \<open>
  The requests of a search: the first one asks for page \<open>1\<close>, written as a string, and
  each further one stores the next page number, an integer, into the body of the one
  before. \<open>search_requests g opts k\<close> are the requests of a search with \<open>k\<close> further pages.
\<close>

definition search_request :: "globals \<Rightarrow> (string \<times> jv) list \<Rightarrow> request" where
  "search_request g b = \<lparr>req_method = POST, req_url = root_url g @ ''search/metadata'', req_body = Dict b\<rparr>"

fun next_pages :: "globals \<Rightarrow> (string \<times> jv) list \<Rightarrow> int \<Rightarrow> nat \<Rightarrow> request list" where
  "next_pages g b page 0 = []"
| "next_pages g b page (Suc k) =
     search_request g (AList.update ''page'' (JInt (page + 1)) b)
       # next_pages g (AList.update ''page'' (JInt (page + 1)) b) (page + 1) k"

definition search_requests :: "globals \<Rightarrow> (string \<times> jv) list \<Rightarrow> nat \<Rightarrow> request list" where
  "search_requests g opts k =
     (let b = AList.update ''page'' (JStr ''1'')
                (AList.update ''size'' (JInt (min 1000 (number_of_assets_to_fetch_per_request g))) opts)
      in search_request g b # next_pages g b 1 k)"

text \<open>
  The pages of a search that ends: every page but the last one is full, that is, holds
  as many assets as the search asks for, and the last page is not full.
\<close>

fun last_page_short :: "int \<Rightarrow> asset list \<Rightarrow> asset list list \<Rightarrow> bool" where
  "last_page_short n received [] = (int (length received) \<noteq> n)"
| "last_page_short n received (p # ps) = (int (length received) = n \<and> last_page_short n p ps)"

text \<open>The search for the assets in the trash, and the request that deletes assets.\<close>

definition trashed_after :: "(string \<times> jv) list" where
  "trashed_after = [(''trashedAfter'', JStr ''1970-01-01T00:00:00.000Z'')]"

definition delete_request :: "globals \<Rightarrow> bool \<Rightarrow> string list \<Rightarrow> request" where
  "delete_request g force ids =
     \<lparr>req_method = DELETE, req_url = root_url g @ ''assets'', req_body = DeleteAssets force ids\<rparr>"

text \<open>
  The request for the libraries, the request that starts the removal job for a library,
  and the messages logged for the answers with status 403.
\<close>

definition libraries_request :: "globals \<Rightarrow> request" where
  "libraries_request g = \<lparr>req_method = GET, req_url = root_url g @ ''libraries'', req_body = NoBody\<rparr>"

definition remove_offline_request :: "globals \<Rightarrow> string \<Rightarrow> request" where
  "remove_offline_request g library_id =
     \<lparr>req_method = POST, req_url = root_url g @ ''libraries/'' @ library_id @ ''/removeOffline'',
      req_body = NoBody\<rparr>"

definition admin_key_messages :: "response list \<Rightarrow> (level \<times> string) list" where
  "admin_key_messages resps =
     map (\<lambda>_. (FATAL, ''--sync-mode 2 requires an Admin User API key!''))
       (filter (\<lambda>r. status_code r = 403) resps)"

text \<open>
  A service of version 1.115 with two libraries that refuses the removal job for the
  first one, and a service with three assets in the trash, two of them offline, which
  are searched two for each page.
\<close>

definition v_1_115 :: server_version where "v_1_115 = \<lparr>major = 1, minor = 115, patch = 0\<rparr>"

definition server_libraries :: "request list \<Rightarrow> request \<Rightarrow> response" where
  "server_libraries h r =
     (if req_method r = GET then \<lparr>status_code = 200, reason = ''OK'', json = Libraries [''l1'', ''l2'']\<rparr>
      else if req_url r = ''http://immich/api/libraries/l1/removeOffline''
      then \<lparr>status_code = 403, reason = ''Forbidden'', json = Empty\<rparr>
      else \<lparr>status_code = 204, reason = ''No Content'', json = Empty\<rparr>)"

definition trashed :: "string \<Rightarrow> bool \<Rightarrow> asset" where
  "trashed i off = \<lparr>asset_id = i, originalPath = ''/lib/'' @ i @ ''.jpg'', fileCreatedAt = ''2020'',
                    isOffline = off\<rparr>"

definition server_trash :: "request list \<Rightarrow> request \<Rightarrow> response" where
  "server_trash h r =
     (case req_body r of
        Dict b \<Rightarrow> \<lparr>status_code = 200, reason = ''OK'',
                   json = Items (if map_of b ''page'' = Some (JStr ''1'')
                                 then [trashed ''t1'' True, trashed ''t2'' False]
                                 else [trashed ''t3'' True])\<rparr>
      | _ \<Rightarrow> \<lparr>status_code = 204, reason = ''No Content'', json = Empty\<rparr>)"

definition g_two_per_page :: globals where
  "g_two_per_page = g0\<lparr>number_of_assets_to_fetch_per_request := 2\<rparr>"

definition g_1_115 :: globals where
  "g_1_115 = g0\<lparr>version := v_1_115\<rparr>"

section \<open>Properties\<close>

lemmas io_defs = return_def raise_def bind_def try_except_def logging_def send_def lift_def

lemmas example_defs = fresh_world_def g0_def s0_def server_ok_def server_not_found_def
  server_patch_fails_def two_albums_def user_a_def user_b_def trip_def server_shared_with_a_def
  g_sharing_def new_AlbumModel_def

subsection \<open>The response check\<close>

lemma check_api_response_ok: "ok r \<Longrightarrow> check_api_response r w = (Inr (), w)"
  by (auto simp: check_api_response_def raise_for_status_def ok_def io_defs)

text \<open>
  A status from 400 to 599 leaves \<open>check_api_response\<close> as the exception of the
  \<open>requests\<close> package, raised by the first call of \<open>raise_for_status\<close>: the clause
  \<open>except HTTPError\<close> does not catch it, and nothing is logged.
\<close>

lemma check_api_response_fail:
  "\<not> ok r \<Longrightarrow> check_api_response r w = (Inl (Requests_HTTPError (status_code r)), w)"
  by (auto simp: check_api_response_def raise_for_status_def ok_def io_defs HTTPError_def)

subsection \<open>A failure in the main loop\<close>

text \<open>
  Claim C1. A failure of a step for one album (the update of its properties, the update
  of its sharing) should be caught and logged, and the loop should go on with the next
  album. The run below has two albums to create, and the service fails on the update of
  the properties of the first one. The exception leaves the loop: the run ends with it,
  nothing is logged, and no request is sent for the second album.
\<close>

theorem main_loop_aborts_on_failed_update:
  "fst (main_loop g0 two_albums s0 (fresh_world server_patch_fails)) = Inl (Requests_HTTPError 500)
   \<and> trace (snd (main_loop g0 two_albums s0 (fresh_world server_patch_fails))) =
       [\<lparr>req_method = POST, req_url = ''http://immich/api/albums'', req_body = CreateAlbum ''A''\<rparr>,
        \<lparr>req_method = PATCH, req_url = ''http://immich/api/albums/id-a'',
         req_body = Dict [(''isActivityEnabled'', JBool True)]\<rparr>]
   \<and> log (snd (main_loop g0 two_albums s0 (fresh_world server_patch_fails))) = []"
  by (simp add: loop_body_def create_album_def created_id_def add_assets_to_album_def
      divide_chunks_def update_album_properties_def check_api_response_def raise_for_status_def
      HTTPError_def io_defs example_defs get_final_name_def truthy_def get_asset_uuids_def
      fmt_def Let_def)

subsection \<open>Sharing\<close>

lemmas sharing_defs = update_album_shared_state_def fetch_album_info_def info_of_def
  unshare_loop_def share_loop_def dict_of_def unshare_album_with_user_def
  update_album_share_user_role_def share_album_with_user_and_role_def SHARE_ROLES_def
  check_api_response_def raise_for_status_def HTTPError_def AssertionError_or_HTTPError_def
  io_defs example_defs fmt_def Let_def

text \<open>
  When the loop variable \<open>album\<close> is the album passed to \<open>update_album_shared_state\<close>, as
  it is at the call in the main loop, the example gives one update of the role of userA
  and one request that adds userB as viewer.
\<close>

lemma sharing_example_same_album:
  "fst (update_album_shared_state (g_sharing trip) trip True (fresh_world server_shared_with_a)) = Inr ()
   \<and> trace (snd (update_album_shared_state (g_sharing trip) trip True (fresh_world server_shared_with_a))) =
       [\<lparr>req_method = GET, req_url = ''http://immich/api/albums/t1'', req_body = NoBody\<rparr>,
        \<lparr>req_method = PUT, req_url = ''http://immich/api/albums/t1/user/ua'', req_body = ShareRole ''viewer''\<rparr>,
        \<lparr>req_method = PUT, req_url = ''http://immich/api/albums/t1/users'',
         req_body = AlbumUsers [(''ub'', ''viewer'')]\<rparr>]"
  by (simp add: sharing_defs)

text \<open>
  When the update of the role fails, the exception of the \<open>requests\<close> package passes the
  clause \<open>except HTTPError\<close> and leaves the function: nothing is logged, and the request
  that adds userB is not sent.
\<close>

lemma sharing_example_failed_update:
  "fst (update_album_shared_state (g_sharing trip) trip True (fresh_world server_role_update_fails)) =
     Inl (Requests_HTTPError 500)
   \<and> trace (snd (update_album_shared_state (g_sharing trip) trip True (fresh_world server_role_update_fails))) =
       [\<lparr>req_method = GET, req_url = ''http://immich/api/albums/t1'', req_body = NoBody\<rparr>,
        \<lparr>req_method = PUT, req_url = ''http://immich/api/albums/t1/user/ua'', req_body = ShareRole ''viewer''\<rparr>]
   \<and> log (snd (update_album_shared_state (g_sharing trip) trip True (fresh_world server_role_update_fails))) = []"
  by (simp add: sharing_defs server_role_update_fails_def)


text \<open>
  Claim C7. \<open>update_album_share_user_role\<close> and \<open>share_album_with_user_and_role\<close> should
  fail with an assertion error, before any request, when the role passed to them is
  neither viewer nor editor. Both assert on the module-level variable \<open>share_role\<close>, the
  value of \<open>--share-role\<close>, here \<open>viewer\<close>. Called with the role \<open>admin\<close>, both return
  without an exception after sending the request with that role.
\<close>

theorem share_role_assertion_ignores_parameter:
  "fst (share_album_with_user_and_role g0 (Some ''t1'') [''ub''] ''admin'' (fresh_world server_ok)) = Inr ()
   \<and> trace (snd (share_album_with_user_and_role g0 (Some ''t1'') [''ub''] ''admin'' (fresh_world server_ok))) =
       [\<lparr>req_method = PUT, req_url = ''http://immich/api/albums/t1/users'',
         req_body = AlbumUsers [(''ub'', ''admin'')]\<rparr>]
   \<and> fst (update_album_share_user_role g0 (Some ''t1'') ''ub'' ''admin'' (fresh_world server_ok)) = Inr ()
   \<and> trace (snd (update_album_share_user_role g0 (Some ''t1'') ''ub'' ''admin'' (fresh_world server_ok))) =
       [\<lparr>req_method = PUT, req_url = ''http://immich/api/albums/t1/user/ub'',
         req_body = ShareRole ''admin''\<rparr>]"
  by (simp add: sharing_defs)

subsection \<open>Deleting an album\<close>

text \<open>
  Claim C4. \<open>delete_album\<close> should return \<open>False\<close>, with an error logged, when the
  deletion fails, and never pass an exception to its caller. For an album that the
  service does not find (status 404) the call ends with the exception of the \<open>requests\<close>
  package and logs nothing.
\<close>

theorem delete_album_raises_on_status_404:
  "fst (delete_album g0 \<lparr>dict_id = ''a1'', albumName = ''Trip'', assetCount = 0\<rparr>
          (fresh_world server_not_found)) = Inl (Requests_HTTPError 404)
   \<and> log (snd (delete_album g0 \<lparr>dict_id = ''a1'', albumName = ''Trip'', assetCount = 0\<rparr>
          (fresh_world server_not_found))) = []"
  by (simp add: delete_album_def check_api_response_def raise_for_status_def HTTPError_def
      io_defs example_defs)

text \<open>
  For every album and every answer of the service, \<open>delete_album\<close> returns \<open>True\<close> or
  ends with the exception of the \<open>requests\<close> package; it never returns \<open>False\<close>.
\<close>

lemma delete_album_result:
  "fst (delete_album g a w) =
     (if ok (server w (trace w)
               \<lparr>req_method = DELETE, req_url = root_url g @ ''albums'' @ ''/'' @ dict_id a,
                req_body = NoBody\<rparr>)
      then Inr True
      else Inl (Requests_HTTPError
                  (status_code (server w (trace w)
                     \<lparr>req_method = DELETE, req_url = root_url g @ ''albums'' @ ''/'' @ dict_id a,
                      req_body = NoBody\<rparr>))))"
  by (simp add: delete_album_def send_def bind_def try_except_def return_def Let_def
      check_api_response_ok check_api_response_fail HTTPError_def)

text \<open>
  In the deletion of the empty albums the first refused deletion ends the loop in the
  same way: the second album is not tried, and no album is counted.
\<close>

lemma delete_empty_albums_aborts:
  "fst (delete_empty_albums g0 (fresh_world server_two_empty_albums)) = Inl (Requests_HTTPError 403)
   \<and> trace (snd (delete_empty_albums g0 (fresh_world server_two_empty_albums))) =
       [\<lparr>req_method = GET, req_url = ''http://immich/api/albums'', req_body = NoBody\<rparr>,
        \<lparr>req_method = DELETE, req_url = ''http://immich/api/albums/a1'', req_body = NoBody\<rparr>]
   \<and> log (snd (delete_empty_albums g0 (fresh_world server_two_empty_albums))) = []"
  by (simp add: delete_empty_albums_def fetch_albums_def albums_of_def delete_album_def
      check_api_response_def raise_for_status_def HTTPError_def io_defs fresh_world_def g0_def
      server_two_empty_albums_def)

subsection \<open>Adding assets\<close>

lemma scan_response_eq:
  "scan_response rs acc w = (Inr (acc @ added rs), w\<lparr>log := log w @ add_warnings rs\<rparr>)"
proof (induction rs arbitrary: acc w)
  case Nil
  show ?case by (simp add: return_def added_def add_warnings_def)
next
  case (Cons res rest)
  show ?case
    by (simp add: Cons.IH bind_def logging_def added_def add_warnings_def)
qed

lemma send_add:
  "send PUT (root_url g @ ''albums'' @ ''/'' @ fmt aid @ ''/assets'') (AddAssets c) w =
     (Inr (server w (trace w) (add_request g aid c)), w\<lparr>trace := trace w @ [add_request g aid c]\<rparr>)"
  by (simp add: send_def add_request_def Let_def)

text \<open>The loop over the chunks, when the service accepts every request.\<close>

lemma add_chunks_eq:
  assumes "\<forall>r \<in> set (answers (server w) (trace w) (map (add_request g aid) chunks)).
             ok r \<and> (\<exists>rs. json r = AddResults rs)"
  shows "add_chunks g aid chunks acc w =
           (Inr (acc @ added (concat (map reported (answers (server w) (trace w) (map (add_request g aid) chunks))))),
            w\<lparr>trace := trace w @ map (add_request g aid) chunks,
              log := log w @ add_warnings (concat (map reported (answers (server w) (trace w) (map (add_request g aid) chunks))))\<rparr>)"
  using assms
proof (induction chunks arbitrary: acc w)
  case Nil
  show ?case by (simp add: return_def added_def add_warnings_def)
next
  case (Cons c rest)
  let ?q = "add_request g aid c"
  let ?r = "server w (trace w) ?q"
  let ?w1 = "w\<lparr>trace := trace w @ [?q]\<rparr>"
  from Cons.prems have okr: "ok ?r" and "\<exists>rs. json ?r = AddResults rs" by simp_all
  then obtain rs0 where rs0: "json ?r = AddResults rs0" by blast
  let ?w2 = "?w1\<lparr>log := log ?w1 @ add_warnings rs0\<rparr>"
  have rest: "\<forall>r \<in> set (answers (server ?w2) (trace ?w2) (map (add_request g aid) rest)).
             ok r \<and> (\<exists>rs. json r = AddResults rs)"
    using Cons.prems by simp
  have rep: "reported ?r = rs0" by (simp add: reported_def rs0)
  have step: "add_chunks g aid (c # rest) acc w = add_chunks g aid rest (acc @ added rs0) ?w2"
    unfolding add_chunks.simps bind_def send_add
    by (simp add: check_api_response_ok [OF okr] add_results_def rs0 return_def scan_response_eq)
  show ?case
    unfolding step Cons.IH [OF rest]
    by (simp add: rep added_def add_warnings_def)
qed

text \<open>Cutting a list into \<open>m\<close> slices of length \<open>n\<close> loses nothing when \<open>m * n\<close> covers it.\<close>

lemma concat_slices:
  "length xs \<le> m * n \<Longrightarrow> concat (map (\<lambda>k. take n (drop (k * n) xs)) [0..<m]) = xs"
proof (induction m arbitrary: xs)
  case 0
  then show ?case by simp
next
  case (Suc m)
  have "[0..<Suc m] = 0 # map Suc [0..<m]"
    by (simp add: upt_conv_Cons map_Suc_upt del: upt_Suc)
  then have "concat (map (\<lambda>k. take n (drop (k * n) xs)) [0..<Suc m])
      = take n xs @ concat (map (\<lambda>k. take n (drop (k * n) (drop n xs))) [0..<m])"
    by (simp add: comp_def add.commute del: upt_Suc)
  also have "concat (map (\<lambda>k. take n (drop (k * n) (drop n xs))) [0..<m]) = drop n xs"
    using Suc.prems by (intro Suc.IH) simp
  finally show ?case by simp
qed

lemma divide_chunks_pos:
  assumes "0 < chunk_size" and "divide_chunks xs chunk_size = Inr chunks"
  shows "concat chunks = xs" and "\<forall>c \<in> set chunks. c \<noteq> [] \<and> int (length c) \<le> chunk_size"
proof -
  let ?n = "nat chunk_size"
  let ?m = "(length xs + ?n - 1) div ?n"
  from assms have n: "0 < ?n" by simp
  from assms have ch: "chunks = map (\<lambda>k. take ?n (drop (k * ?n) xs)) [0..<?m]"
    by (auto simp: divide_chunks_def Let_def)
  have "length xs \<le> ?m * ?n"
  proof -
    have "length xs + ?n - 1 < (?m + 1) * ?n"
      using n by (metis Suc_eq_plus1 dividend_less_div_times mult.commute mult_Suc)
    then have "length xs + ?n - 1 < ?m * ?n + ?n" by (simp add: algebra_simps)
    with n show ?thesis by linarith
  qed
  then show "concat chunks = xs" unfolding ch by (rule concat_slices)
  show "\<forall>c \<in> set chunks. c \<noteq> [] \<and> int (length c) \<le> chunk_size"
  proof
    fix c assume "c \<in> set chunks"
    then obtain k where k: "k < ?m" and c: "c = take ?n (drop (k * ?n) xs)"
      unfolding ch by auto
    have "k * ?n < length xs"
    proof -
      from k have "Suc k \<le> ?m" by simp
      then have "Suc k * ?n \<le> ?m * ?n" by (rule mult_le_mono1)
      also have "?m * ?n \<le> length xs + ?n - 1" by simp
      finally show ?thesis using n by simp
    qed
    then have "c \<noteq> []" using n c by simp
    moreover have "int (length c) \<le> chunk_size" using c assms(1) by simp
    ultimately show "c \<noteq> [] \<and> int (length c) \<le> chunk_size" ..
  qed
qed

text \<open>
  Claim C5. With a positive chunk size, \<open>add_assets_to_album\<close> cuts the list of ids into
  chunks that are not empty, hold at most that many ids and together give the list back;
  it sends one request for each chunk, in order. When the service accepts every one of
  these requests, the call returns exactly the ids of the entries that the responses
  report as successful, in order. An entry that reports the error \<open>duplicate\<close> adds
  nothing to the result and nothing to the log; an entry with another error adds nothing
  to the result and one warning to the log.
\<close>

theorem add_assets_to_album_chunked:
  assumes "0 < number_of_images_per_request g"
    and "divide_chunks asset_list (number_of_images_per_request g) = Inr chunks"
    and "answers (server w) (trace w) (map (add_request g aid) chunks) = resps"
    and "\<forall>r \<in> set resps. ok r \<and> (\<exists>rs. json r = AddResults rs)"
  shows "concat chunks = asset_list
       \<and> (\<forall>c \<in> set chunks. c \<noteq> [] \<and> int (length c) \<le> number_of_images_per_request g)
       \<and> add_assets_to_album g aid asset_list w =
           (Inr (added (concat (map reported resps))),
            w\<lparr>trace := trace w @ map (add_request g aid) chunks,
              log := log w @ add_warnings (concat (map reported resps))\<rparr>)"
proof -
  note d = divide_chunks_pos [OF assms(1,2)]
  have "add_assets_to_album g aid asset_list w = add_chunks g aid chunks [] w"
    by (simp add: add_assets_to_album_def assms(2) lift_def bind_def return_def)
  also have "\<dots> = (Inr (added (concat (map reported resps))),
            w\<lparr>trace := trace w @ map (add_request g aid) chunks,
              log := log w @ add_warnings (concat (map reported resps))\<rparr>)"
    using add_chunks_eq [of w g aid chunks "[]"] assms(3,4) by simp
  finally show ?thesis using d by simp
qed

theorem add_assets_to_album_chunked_witness:
  "0 < number_of_images_per_request g_two_per_request
   \<and> divide_chunks [''x1'', ''x2'', ''x3'', ''x4'', ''x5''] (number_of_images_per_request g_two_per_request)
       = Inr [[''x1'', ''x2''], [''x3'', ''x4''], [''x5'']]
   \<and> fst (add_assets_to_album g_two_per_request (Some ''a1'') [''x1'', ''x2'', ''x3'', ''x4'', ''x5'']
            (fresh_world server_add)) = Inr [''x1'', ''x4'', ''x5'']
   \<and> trace (snd (add_assets_to_album g_two_per_request (Some ''a1'') [''x1'', ''x2'', ''x3'', ''x4'', ''x5'']
            (fresh_world server_add))) =
       [\<lparr>req_method = PUT, req_url = ''http://immich/api/albums/a1/assets'', req_body = AddAssets [''x1'', ''x2'']\<rparr>,
        \<lparr>req_method = PUT, req_url = ''http://immich/api/albums/a1/assets'', req_body = AddAssets [''x3'', ''x4'']\<rparr>,
        \<lparr>req_method = PUT, req_url = ''http://immich/api/albums/a1/assets'', req_body = AddAssets [''x5'']\<rparr>]
   \<and> log (snd (add_assets_to_album g_two_per_request (Some ''a1'') [''x1'', ''x2'', ''x3'', ''x4'', ''x5'']
            (fresh_world server_add))) = [(WARNING, ''Error adding an asset to an album: %s'')]"
proof -
  let ?g = g_two_per_request
  let ?w = "fresh_world server_add"
  let ?chunks = "[[''x1'', ''x2''], [''x3'', ''x4''], [''x5'']]"
  let ?resps = "map (\<lambda>c. \<lparr>status_code = 200, reason = ''OK'', json = AddResults (map result_for c)\<rparr>) ?chunks"
  have h1: "0 < number_of_images_per_request ?g" by (simp add: g_two_per_request_def g0_def)
  have u: "[0..<3] = [0, 1, 2]" by (simp add: upt_rec)
  have h2: "divide_chunks [''x1'', ''x2'', ''x3'', ''x4'', ''x5''] (number_of_images_per_request ?g) = Inr ?chunks"
    by (simp add: divide_chunks_def g_two_per_request_def g0_def Let_def u)
  have h3: "answers (server ?w) (trace ?w) (map (add_request ?g (Some ''a1'')) ?chunks) = ?resps"
    by (simp add: fresh_world_def server_add_def add_request_def)
  have h4: "\<forall>r \<in> set ?resps. ok r \<and> (\<exists>rs. json r = AddResults rs)" by (simp add: ok_def)
  from add_assets_to_album_chunked [OF h1 h2 h3 h4] h1 h2 show ?thesis
    by (simp add: reported_def added_def add_warnings_def result_for_def add_request_def
        g_two_per_request_def g0_def fresh_world_def fmt_def)
qed

subsection \<open>Choosing a thumbnail\<close>

text \<open>Where the first and the last element of a stably sorted list come from.\<close>

lemma find_filter_hd: "filter P xs = a # rest \<Longrightarrow> find P xs = Some a"
  by (induction xs) (auto split: if_splits)

lemma sort_key_Nil_iff [simp]: "sort_key f xs = [] \<longleftrightarrow> xs = []"
  by (metis length_0_conv length_sort)

lemma sort_key_hd:
  fixes f :: "'a \<Rightarrow> 'k::linorder"
  assumes "xs \<noteq> []"
  shows "hd (sort_key f xs) \<in> set xs"
    and "\<forall>b \<in> set xs. f (hd (sort_key f xs)) \<le> f b"
    and "find (\<lambda>b. f b = f (hd (sort_key f xs))) xs = Some (hd (sort_key f xs))"
proof -
  from assms have "sort_key f xs \<noteq> []" by (metis length_0_conv length_sort)
  then obtain a t where s: "sort_key f xs = a # t" by (cases "sort_key f xs") auto
  have "a \<in> set (sort_key f xs)" by (simp add: s)
  then show "hd (sort_key f xs) \<in> set xs" by (simp add: s del: set_sort) (metis s list.set_intros(1) set_sort)
  have "sorted (map f (a # t))" by (metis s sorted_sort_key)
  then have "\<forall>b \<in> set (a # t). f a \<le> f b" by auto
  then show "\<forall>b \<in> set xs. f (hd (sort_key f xs)) \<le> f b" by (metis s set_sort list.sel(1))
  have "filter (\<lambda>y. f y = f a) (a # t) = a # filter (\<lambda>y. f y = f a) t" by simp
  then have "filter (\<lambda>y. f y = f a) xs = a # filter (\<lambda>y. f y = f a) t"
    by (metis s sort_key_stable)
  then show "find (\<lambda>b. f b = f (hd (sort_key f xs))) xs = Some (hd (sort_key f xs))"
    by (simp add: s find_filter_hd)
qed

lemma sort_key_last:
  fixes f :: "'a \<Rightarrow> 'k::linorder"
  assumes "xs \<noteq> []"
  shows "last (sort_key f xs) \<in> set xs"
    and "\<forall>b \<in> set xs. f b \<le> f (last (sort_key f xs))"
    and "find (\<lambda>b. f b = f (last (sort_key f xs))) (rev xs) = Some (last (sort_key f xs))"
proof -
  from assms have ne: "sort_key f xs \<noteq> []" by (metis length_0_conv length_sort)
  then obtain a t where s: "sort_key f xs = t @ [a]" by (metis rev_exhaust)
  have la: "last (sort_key f xs) = a" by (simp add: s)
  have "a \<in> set (sort_key f xs)" by (simp add: s)
  then show "last (sort_key f xs) \<in> set xs" unfolding la by simp
  have "sorted (map f (t @ [a]))" by (metis s sorted_sort_key)
  then have "\<forall>b \<in> set (t @ [a]). f b \<le> f a" by (auto simp: sorted_append)
  then show "\<forall>b \<in> set xs. f b \<le> f (last (sort_key f xs))" unfolding la by (metis s set_sort)
  have "filter (\<lambda>y. f y = f a) (t @ [a]) = filter (\<lambda>y. f y = f a) t @ [a]" by simp
  then have "filter (\<lambda>y. f y = f a) xs = filter (\<lambda>y. f y = f a) t @ [a]"
    by (metis s sort_key_stable)
  then have "filter (\<lambda>y. f y = f a) (rev xs) = a # rev (filter (\<lambda>y. f y = f a) t)"
    by (simp add: rev_filter [symmetric])
  then show "find (\<lambda>b. f b = f (last (sort_key f xs))) (rev xs) = Some (last (sort_key f xs))"
    unfolding la by (rule find_filter_hd)
qed

lemmas thumb_defs = choose_thumbnail_def deref_def list_sort_def py_index_def randint_def
  ALBUM_THUMBNAIL_SETTINGS_GLOBAL_def ALBUM_THUMBNAIL_SETTINGS_def ALBUM_THUMBNAIL_RANDOM_ALL_def
  ALBUM_THUMBNAIL_STATIC_INDICES_def return_def raise_def bind_def Let_def

lemma choose_path:
  "s \<notin> set ALBUM_THUMBNAIL_SETTINGS_GLOBAL \<Longrightarrow>
   choose_thumbnail s r w = (Inr (find (\<lambda>asset. originalPath asset = s) (heap w r)), w)"
  by (simp add: thumb_defs)

lemma choose_empty:
  "s \<in> set ALBUM_THUMBNAIL_SETTINGS_GLOBAL \<Longrightarrow> heap w r = [] \<Longrightarrow>
   choose_thumbnail s r w = (Inr None, w)"
  by (simp add: thumb_defs)

lemma choose_first:
  "heap w r \<noteq> [] \<Longrightarrow>
   choose_thumbnail ''first'' r w =
     (Inr (Some (hd (sort_key fileCreatedAt (heap w r)))),
      w\<lparr>heap := (heap w)(r := sort_key fileCreatedAt (heap w r))\<rparr>)"
  by (simp add: thumb_defs hd_conv_nth)

lemma choose_last:
  assumes "heap w r \<noteq> []"
  shows "choose_thumbnail ''last'' r w =
     (Inr (Some (last (sort_key fileCreatedAt (heap w r)))),
      w\<lparr>heap := (heap w)(r := sort_key fileCreatedAt (heap w r))\<rparr>)"
proof -
  have "sort_key fileCreatedAt (heap w r) \<noteq> []" using assms by (metis length_0_conv length_sort)
  then have "last (sort_key fileCreatedAt (heap w r)) =
        sort_key fileCreatedAt (heap w r) ! (length (heap w r) - 1)"
    by (simp add: last_conv_nth)
  moreover have "nat (int (length (heap w r)) - 1) = length (heap w r) - 1" by simp
  moreover have "0 < length (heap w r)" using assms by simp
  ultimately show ?thesis by (simp add: thumb_defs Suc_le_eq)
qed

lemma choose_random:
  assumes "heap w r \<noteq> []" and "s = ''random'' \<or> s = ''random-all''"
  shows "choose_thumbnail s r w =
     (Inr (Some (sort_key fileCreatedAt (heap w r) ! (entropy w (draws w) mod length (heap w r)))),
      w\<lparr>heap := (heap w)(r := sort_key fileCreatedAt (heap w r)), draws := Suc (draws w)\<rparr>)"
proof -
  have l: "0 < length (heap w r)" using assms by simp
  then have n: "nat (int (length (heap w r)) - 1 - 0 + 1) = length (heap w r)" by simp
  have "entropy w (draws w) mod length (heap w r) < length (heap w r)" using l by simp
  then show ?thesis using assms l by (auto simp: thumb_defs)
qed

text \<open>
  Claim C6. Let \<open>xs\<close> be the candidate list. For a setting that is none of first, last,
  random and random-all, \<open>choose_thumbnail\<close> returns the first asset of \<open>xs\<close> whose
  \<open>originalPath\<close> is the setting, and \<open>None\<close> when there is none. For a list that is not
  empty, \<open>first\<close> returns an asset of the least \<open>fileCreatedAt\<close>, the one that comes first
  in \<open>xs\<close> among those of that time; \<open>last\<close> returns an asset of the greatest
  \<open>fileCreatedAt\<close>, the one that comes last in \<open>xs\<close> among those of that time; \<open>random\<close>
  and \<open>random-all\<close> return the element of the sorted list at the index that
  \<open>random.randint\<close> draws from 0 to the length less one. For the empty list and one of
  the four settings the result is \<open>None\<close>.
\<close>

theorem choose_thumbnail_selects:
  assumes "heap w r = xs"
  shows "(s \<notin> set ALBUM_THUMBNAIL_SETTINGS_GLOBAL \<longrightarrow>
            fst (choose_thumbnail s r w) = Inr (find (\<lambda>a. originalPath a = s) xs))
       \<and> (xs \<noteq> [] \<longrightarrow>
            (\<exists>a. fst (choose_thumbnail ''first'' r w) = Inr (Some a) \<and> a \<in> set xs
                \<and> (\<forall>b \<in> set xs. fileCreatedAt a \<le> fileCreatedAt b)
                \<and> find (\<lambda>b. fileCreatedAt b = fileCreatedAt a) xs = Some a))
       \<and> (xs \<noteq> [] \<longrightarrow>
            (\<exists>a. fst (choose_thumbnail ''last'' r w) = Inr (Some a) \<and> a \<in> set xs
                \<and> (\<forall>b \<in> set xs. fileCreatedAt b \<le> fileCreatedAt a)
                \<and> find (\<lambda>b. fileCreatedAt b = fileCreatedAt a) (rev xs) = Some a))
       \<and> (xs \<noteq> [] \<and> (s = ''random'' \<or> s = ''random-all'') \<longrightarrow>
            entropy w (draws w) mod length xs < length xs
            \<and> fst (choose_thumbnail s r w) =
                Inr (Some (sort_key fileCreatedAt xs ! (entropy w (draws w) mod length xs))))
       \<and> (xs = [] \<and> s \<in> set ALBUM_THUMBNAIL_SETTINGS_GLOBAL \<longrightarrow>
            fst (choose_thumbnail s r w) = Inr None)"
proof (intro conjI impI)
  assume "s \<notin> set ALBUM_THUMBNAIL_SETTINGS_GLOBAL"
  then show "fst (choose_thumbnail s r w) = Inr (find (\<lambda>a. originalPath a = s) xs)"
    using assms by (simp add: choose_path)
next
  assume ne: "xs \<noteq> []"
  then have h: "heap w r \<noteq> []" using assms by simp
  show "\<exists>a. fst (choose_thumbnail ''first'' r w) = Inr (Some a) \<and> a \<in> set xs
                \<and> (\<forall>b \<in> set xs. fileCreatedAt a \<le> fileCreatedAt b)
                \<and> find (\<lambda>b. fileCreatedAt b = fileCreatedAt a) xs = Some a"
    using sort_key_hd [OF ne, of fileCreatedAt] assms by (simp add: choose_first [OF h])
  show "\<exists>a. fst (choose_thumbnail ''last'' r w) = Inr (Some a) \<and> a \<in> set xs
                \<and> (\<forall>b \<in> set xs. fileCreatedAt b \<le> fileCreatedAt a)
                \<and> find (\<lambda>b. fileCreatedAt b = fileCreatedAt a) (rev xs) = Some a"
    using sort_key_last [OF ne, of fileCreatedAt] assms by (simp add: choose_last [OF h])
next
  assume a: "xs \<noteq> [] \<and> (s = ''random'' \<or> s = ''random-all'')"
  then show "entropy w (draws w) mod length xs < length xs" by simp
  from a have h: "heap w r \<noteq> []" using assms by simp
  from a show "fst (choose_thumbnail s r w) =
                Inr (Some (sort_key fileCreatedAt xs ! (entropy w (draws w) mod length xs)))"
    using assms by (simp add: choose_random [OF h])
next
  assume "xs = [] \<and> s \<in> set ALBUM_THUMBNAIL_SETTINGS_GLOBAL"
  then show "fst (choose_thumbnail s r w) = Inr None"
    using assms by (simp add: choose_empty)
qed

lemma photos_sorted:
  "sort_key fileCreatedAt photos = [photo ''p2'' ''2020'', photo ''p3'' ''2020'', photo ''p1'' ''2021'', photo ''p4'' ''2021'']"
  by (simp add: photos_def photo_def)

theorem choose_thumbnail_selects_witness:
  "heap world_photos 0 = photos \<and> photos \<noteq> []
   \<and> fst (choose_thumbnail ''first'' 0 world_photos) = Inr (Some (photo ''p2'' ''2020''))
   \<and> fst (choose_thumbnail ''last'' 0 world_photos) = Inr (Some (photo ''p4'' ''2021''))
   \<and> fst (choose_thumbnail ''random'' 0 world_photos) = Inr (Some (photo ''p1'' ''2021''))
   \<and> fst (choose_thumbnail ''/lib/p3.jpg'' 0 world_photos) = Inr (Some (photo ''p3'' ''2020''))
   \<and> fst (choose_thumbnail ''/lib/p9.jpg'' 0 world_photos) = Inr None
   \<and> fst (choose_thumbnail ''last'' 1 world_photos) = Inr None"
proof -
  have h: "heap world_photos 0 = photos" by (simp add: world_photos_def fresh_world_def)
  have e: "heap world_photos 1 = []" by (simp add: world_photos_def fresh_world_def)
  have ne: "photos \<noteq> []" by (simp add: photos_def)
  have en: "entropy world_photos (draws world_photos) mod length photos = 2"
    by (simp add: world_photos_def fresh_world_def photos_def)
  note t = choose_thumbnail_selects [OF h]
  from t [of "''first''"] ne obtain a where
    a: "fst (choose_thumbnail ''first'' 0 world_photos) = Inr (Some a)" "a \<in> set photos"
       "\<forall>b \<in> set photos. fileCreatedAt a \<le> fileCreatedAt b"
       "find (\<lambda>b. fileCreatedAt b = fileCreatedAt a) photos = Some a"
    by blast
  have "a = photo ''p2'' ''2020''" using a(2,3,4) by (auto simp: photos_def photo_def)
  with a(1) have first: "fst (choose_thumbnail ''first'' 0 world_photos) = Inr (Some (photo ''p2'' ''2020''))"
    by simp
  from t [of "''last''"] ne obtain b where
    b: "fst (choose_thumbnail ''last'' 0 world_photos) = Inr (Some b)" "b \<in> set photos"
       "\<forall>c \<in> set photos. fileCreatedAt c \<le> fileCreatedAt b"
       "find (\<lambda>c. fileCreatedAt c = fileCreatedAt b) (rev photos) = Some b"
    by blast
  have "b = photo ''p4'' ''2021''" using b(2,3,4) by (auto simp: photos_def photo_def)
  with b(1) have last: "fst (choose_thumbnail ''last'' 0 world_photos) = Inr (Some (photo ''p4'' ''2021''))"
    by simp
  have random: "fst (choose_thumbnail ''random'' 0 world_photos) = Inr (Some (photo ''p1'' ''2021''))"
    using t [of "''random''"] ne en by (simp add: photos_sorted)
  have path: "fst (choose_thumbnail ''/lib/p3.jpg'' 0 world_photos) = Inr (Some (photo ''p3'' ''2020''))"
    using t [of "''/lib/p3.jpg''"]
    by (simp add: photos_def photo_def ALBUM_THUMBNAIL_SETTINGS_GLOBAL_def
        ALBUM_THUMBNAIL_SETTINGS_def ALBUM_THUMBNAIL_RANDOM_ALL_def)
  have nopath: "fst (choose_thumbnail ''/lib/p9.jpg'' 0 world_photos) = Inr None"
    using t [of "''/lib/p9.jpg''"]
    by (simp add: photos_def photo_def ALBUM_THUMBNAIL_SETTINGS_GLOBAL_def
        ALBUM_THUMBNAIL_SETTINGS_def ALBUM_THUMBNAIL_RANDOM_ALL_def)
  have empty: "fst (choose_thumbnail ''last'' 1 world_photos) = Inr None"
    using choose_thumbnail_selects [OF e, of "''last''"]
    by (simp add: ALBUM_THUMBNAIL_SETTINGS_GLOBAL_def ALBUM_THUMBNAIL_SETTINGS_def)
  from h ne first last random path nopath empty show ?thesis by simp
qed

text \<open>
  Claim C10. For a setting among first, last, random and random-all and a list that is
  not empty, the call leaves the caller's list object sorted by \<open>fileCreatedAt\<close>: the
  object at the reference passed holds the stably sorted list afterwards, and no other
  object changes.
\<close>

theorem choose_thumbnail_sorts_callers_list:
  assumes "s \<in> set ALBUM_THUMBNAIL_SETTINGS_GLOBAL" and "heap w r \<noteq> []"
  shows "heap (snd (choose_thumbnail s r w)) r = sort_key fileCreatedAt (heap w r)
       \<and> (\<forall>r'. r' \<noteq> r \<longrightarrow> heap (snd (choose_thumbnail s r w)) r' = heap w r')"
proof -
  from assms(1) consider "s = ''first''" | "s = ''last''" | "s = ''random'' \<or> s = ''random-all''"
    by (auto simp: ALBUM_THUMBNAIL_SETTINGS_GLOBAL_def ALBUM_THUMBNAIL_SETTINGS_def
        ALBUM_THUMBNAIL_RANDOM_ALL_def)
  then show ?thesis
  proof cases
    case 1
    then show ?thesis by (simp add: choose_first [OF assms(2)])
  next
    case 2
    then show ?thesis by (simp add: choose_last [OF assms(2)])
  next
    case 3
    then show ?thesis by (simp add: choose_random [OF assms(2) 3])
  qed
qed

theorem choose_thumbnail_sorts_callers_list_witness:
  "''first'' \<in> set ALBUM_THUMBNAIL_SETTINGS_GLOBAL \<and> heap world_photos 0 \<noteq> []
   \<and> heap world_photos 0 = [photo ''p1'' ''2021'', photo ''p2'' ''2020'', photo ''p3'' ''2020'', photo ''p4'' ''2021'']
   \<and> heap (snd (choose_thumbnail ''first'' 0 world_photos)) 0 =
       [photo ''p2'' ''2020'', photo ''p3'' ''2020'', photo ''p1'' ''2021'', photo ''p4'' ''2021'']"
proof -
  have s: "''first'' \<in> set ALBUM_THUMBNAIL_SETTINGS_GLOBAL"
    by (simp add: ALBUM_THUMBNAIL_SETTINGS_GLOBAL_def ALBUM_THUMBNAIL_SETTINGS_def)
  have h: "heap world_photos 0 = photos" by (simp add: world_photos_def fresh_world_def)
  then have ne: "heap world_photos 0 \<noteq> []" by (simp add: photos_def)
  from choose_thumbnail_sorts_callers_list [OF s ne] s ne h show ?thesis
    by (simp add: photos_sorted) (simp add: photos_def)
qed

subsection \<open>Options of the command line in the album model\<close>



subsection \<open>The checks at the start\<close>









text \<open>
  For a version from 1.0.0 on, the check of the script, major number 1 and minor number
  below 106, holds exactly of the versions below 1.106.0.
\<close>

lemma version_check_below_1_106_0:
  "1 \<le> major v \<Longrightarrow> 0 \<le> patch v \<Longrightarrow> (major v = 1 \<and> minor v < 106) = below_1_106_0 v"
  by (auto simp: below_1_106_0_def)





subsection \<open>Removing offline assets\<close>

lemma raise_for_status_ok: "ok r \<Longrightarrow> raise_for_status r w = (Inr (), w)"
  by (auto simp: raise_for_status_def ok_def return_def)

lemma send_search:
  "send POST (root_url g @ ''search/metadata'') (Dict b) w =
     (Inr (server w (trace w) (search_request g b)), w\<lparr>trace := trace w @ [search_request g b]\<rparr>)"
  by (simp add: send_def search_request_def Let_def)

text \<open>
  A search whose pages end returns all the assets of its pages, given fuel for each
  further page.
\<close>

lemma fetch_pages_eq:
  "list_all2 (\<lambda>r p. ok r \<and> json r = Items p)
             (answers (server w) (trace w) (next_pages g b page (length ps))) ps
   \<Longrightarrow> last_page_short n received ps \<Longrightarrow> length ps \<le> fuel
   \<Longrightarrow> fetch_pages fuel g b n page received found w =
           Some (Inr (found @ concat ps), w\<lparr>trace := trace w @ next_pages g b page (length ps)\<rparr>)"
proof (induction ps arbitrary: fuel b page received found w)
  case Nil
  then show ?case by (cases fuel) simp_all
next
  case (Cons p ps)
  from Cons.prems(3) obtain f where fuel: "fuel = Suc f" and f: "length ps \<le> f"
    by (cases fuel) auto
  let ?b = "AList.update ''page'' (JInt (page + 1)) b"
  let ?q = "search_request g ?b"
  let ?r = "server w (trace w) ?q"
  let ?w1 = "w\<lparr>trace := trace w @ [?q]\<rparr>"
  from Cons.prems(1) have okr: "ok ?r" and js: "json ?r = Items p"
    and rest: "list_all2 (\<lambda>r p. ok r \<and> json r = Items p)
             (answers (server ?w1) (trace ?w1) (next_pages g ?b (page + 1) (length ps))) ps"
    by simp_all
  from Cons.prems(2) have full: "int (length received) = n" and short: "last_page_short n p ps"
    by simp_all
  have step: "fetch_pages (Suc f) g b n page received found w =
                fetch_pages f g ?b n (page + 1) p (found @ p) ?w1"
    unfolding fetch_pages.simps bind_def send_search Let_def
    by (simp add: full check_api_response_ok [OF okr] items_of_def js return_def)
  show ?case
    unfolding fuel step Cons.IH [OF rest short f]
    by simp
qed

lemma fetch_assets_with_options_eq:
  assumes "list_all2 (\<lambda>r p. ok r \<and> json r = Items p)
             (answers (server w) (trace w) (search_requests g opts (length ps))) (p # ps)"
    and "last_page_short (min 1000 (number_of_assets_to_fetch_per_request g)) p ps"
    and "length ps \<le> fuel"
  shows "fetch_assets_with_options fuel g opts w =
           Some (Inr (concat (p # ps)), w\<lparr>trace := trace w @ search_requests g opts (length ps)\<rparr>)"
proof -
  let ?n = "min 1000 (number_of_assets_to_fetch_per_request g)"
  let ?b = "AList.update ''page'' (JStr ''1'') (AList.update ''size'' (JInt ?n) opts)"
  let ?q = "search_request g ?b"
  let ?r = "server w (trace w) ?q"
  let ?w1 = "w\<lparr>trace := trace w @ [?q]\<rparr>"
  from assms(1) have okr: "ok ?r" and js: "json ?r = Items p"
    and rest: "list_all2 (\<lambda>r p. ok r \<and> json r = Items p)
             (answers (server ?w1) (trace ?w1) (next_pages g ?b 1 (length ps))) ps"
    by (simp_all add: search_requests_def Let_def)
  have first: "fetch_assets_with_options fuel g opts w = fetch_pages fuel g ?b ?n 1 p ([] @ p) ?w1"
    unfolding fetch_assets_with_options_def bind_def send_search Let_def
    by (simp add: raise_for_status_ok [OF okr] items_of_def js return_def)
  show ?thesis
    unfolding first fetch_pages_eq [OF rest assms(2,3)]
    by (simp add: search_requests_def Let_def)
qed

lemma send_remove:
  "send POST (root_url g @ ''libraries/'' @ l @ ''/removeOffline'') NoBody w =
     (Inr (server w (trace w) (remove_offline_request g l)),
      w\<lparr>trace := trace w @ [remove_offline_request g l]\<rparr>)"
  by (simp add: send_def remove_offline_request_def Let_def)

lemma admin_key_messages_Cons:
  "admin_key_messages (r # rs) =
     (if status_code r = 403 then [(FATAL, ''--sync-mode 2 requires an Admin User API key!'')] else [])
       @ admin_key_messages rs"
  by (simp add: admin_key_messages_def)

text \<open>The loop over the libraries: an answer with status 403 is logged and the loop goes on.\<close>

lemma remove_loop_eq:
  assumes "\<forall>r \<in> set (answers (server w) (trace w) (map (remove_offline_request g) libs)).
             status_code r = 403 \<or> ok r"
  shows "for_each libs (\<lambda>library. trigger_offline_asset_removal_async g library) w =
           (Inr (), w\<lparr>trace := trace w @ map (remove_offline_request g) libs,
                      log := log w @ admin_key_messages
                               (answers (server w) (trace w) (map (remove_offline_request g) libs))\<rparr>)"
  using assms
proof (induction libs arbitrary: w)
  case Nil
  show ?case by (simp add: return_def admin_key_messages_def)
next
  case (Cons l libs)
  let ?q = "remove_offline_request g l"
  let ?r = "server w (trace w) ?q"
  let ?w1 = "w\<lparr>trace := trace w @ [?q]\<rparr>"
  let ?m = "if status_code ?r = 403 then [(FATAL, ''--sync-mode 2 requires an Admin User API key!'')] else []"
  let ?w2 = "?w1\<lparr>log := log ?w1 @ ?m\<rparr>"
  from Cons.prems have r: "status_code ?r = 403 \<or> ok ?r" by simp
  have one: "trigger_offline_asset_removal_async g l w = (Inr (), ?w2)"
    unfolding trigger_offline_asset_removal_async_def bind_def send_remove
    using r by (auto simp: logging_def check_api_response_ok)
  have rest: "\<forall>r \<in> set (answers (server ?w2) (trace ?w2) (map (remove_offline_request g) libs)).
             status_code r = 403 \<or> ok r"
    using Cons.prems by simp
  have "for_each (l # libs) (\<lambda>library. trigger_offline_asset_removal_async g library) w =
          for_each libs (\<lambda>library. trigger_offline_asset_removal_async g library) ?w2"
    unfolding for_each.simps bind_def one by simp
  then show ?case
    unfolding Cons.IH [OF rest]
    by (simp add: admin_key_messages_Cons)
qed

lemma check_api_response_trace: "trace (snd (check_api_response r w)) = trace w"
  by (cases "ok r") (simp_all add: check_api_response_ok check_api_response_fail)

lemma send_libraries:
  "send GET (root_url g @ ''libraries'') NoBody w =
     (Inr (server w (trace w) (libraries_request g)), w\<lparr>trace := trace w @ [libraries_request g]\<rparr>)"
  by (simp add: send_def libraries_request_def Let_def)

lemma send_delete:
  "send DELETE (root_url g @ ''assets'') (DeleteAssets force ids) w =
     (Inr (server w (trace w) (delete_request g force ids)),
      w\<lparr>trace := trace w @ [delete_request g force ids]\<rparr>)"
  by (simp add: send_def delete_request_def Let_def)

lemma removal_pre_116:
  assumes "major (version g) = 1" and "minor (version g) < 116"
    and "ok (server w (trace w) (libraries_request g))"
    and "json (server w (trace w) (libraries_request g)) = Libraries libs"
    and "answers (server w) (trace w @ [libraries_request g]) (map (remove_offline_request g) libs) = resps"
    and "\<forall>r \<in> set resps. status_code r = 403 \<or> ok r"
  shows "trigger_offline_asset_removal fuel g w =
           Some (Inr (), w\<lparr>trace := trace w @ libraries_request g # map (remove_offline_request g) libs,
                            log := log w @ admin_key_messages resps\<rparr>)"
proof -
  let ?w1 = "w\<lparr>trace := trace w @ [libraries_request g]\<rparr>"
  have libs: "fetch_libraries g w = (Inr libs, ?w1)"
    unfolding fetch_libraries_def bind_def send_libraries
    by (simp add: check_api_response_ok [OF assms(3)] libraries_of_def assms(4) return_def)
  have loop: "\<forall>r \<in> set (answers (server ?w1) (trace ?w1) (map (remove_offline_request g) libs)).
             status_code r = 403 \<or> ok r"
    using assms(5,6) by simp
  have "trigger_offline_asset_removal fuel g w =
          Some (for_each libs (\<lambda>library. trigger_offline_asset_removal_async g library) ?w1)"
    using assms(1,2)
    by (simp add: trigger_offline_asset_removal_def trigger_offline_asset_removal_pre_minor_version_116_def
        bind_def libs)
  then show ?thesis
    unfolding remove_loop_eq [OF loop] using assms(5) by simp
qed

lemma removal_since_116:
  assumes "1 < major (version g) \<or> (major (version g) = 1 \<and> 116 \<le> minor (version g))"
    and "list_all2 (\<lambda>r p. ok r \<and> json r = Items p)
           (answers (server w) (trace w) (search_requests g trashed_after (length ps))) (p # ps)"
    and "last_page_short (min 1000 (number_of_assets_to_fetch_per_request g)) p ps"
    and "length ps \<le> fuel"
  shows "\<exists>res w'. trigger_offline_asset_removal fuel g w = Some (res, w')
          \<and> trace w' = trace w @ search_requests g trashed_after (length ps)
               @ (if filter isOffline (concat (p # ps)) = [] then []
                  else [delete_request g True (map asset_id (filter isOffline (concat (p # ps))))])
          \<and> (filter isOffline (concat (p # ps)) = [] \<longrightarrow> res = Inr ())"
proof -
  let ?w1 = "w\<lparr>trace := trace w @ search_requests g trashed_after (length ps)\<rparr>"
  let ?off = "filter isOffline (concat (p # ps))"
  from assms(1) have v: "\<not> (major (version g) = 1 \<and> minor (version g) < 116)" by auto
  note f = fetch_assets_with_options_eq [OF assms(2,3,4)]
  have t0: "trigger_offline_asset_removal fuel g w =
              trigger_offline_asset_removal_since_minor_version_116 fuel g w"
    using v by (auto simp: trigger_offline_asset_removal_def)
  have t1: "trigger_offline_asset_removal_since_minor_version_116 fuel g w =
     (case fetch_assets_with_options fuel g trashed_after w of
        None \<Rightarrow> None
      | Some (Inl e, w') \<Rightarrow> Some (Inl e, w')
      | Some (Inr trashed_assets, w') \<Rightarrow>
          (let offline_assets = filter isOffline trashed_assets
           in if length offline_assets > 0 then Some (delete_assets g offline_assets True w')
              else Some (Inr (), w')))"
    unfolding trigger_offline_asset_removal_since_minor_version_116_def trashed_after_def
    by (rule refl)
  have t: "trigger_offline_asset_removal fuel g w =
             (if length ?off > 0 then Some (delete_assets g ?off True ?w1) else Some (Inr (), ?w1))"
    unfolding t0 t1 f by (simp add: Let_def)
  show ?thesis
  proof (cases "?off = []")
    case True
    with t show ?thesis by simp
  next
    case False
    have d: "trace (snd (delete_assets g ?off True ?w1)) =
               trace ?w1 @ [delete_request g True (map asset_id ?off)]"
      unfolding delete_assets_def bind_def send_delete
      by (simp add: check_api_response_trace)
    from False t have "trigger_offline_asset_removal fuel g w = Some (delete_assets g ?off True ?w1)"
      by simp
    with d False show ?thesis
      by (cases "delete_assets g ?off True ?w1") auto
  qed
qed

text \<open>
  Claim C8. For a version with major number 1 and a minor number below 116,
  \<open>trigger_offline_asset_removal\<close> asks for the libraries and starts the removal job once
  for each library; an answer with status 403 is reported with a message of level fatal
  and raises nothing, and the job is not started again. For a version from 1.116 on, it
  searches the assets in the trash page by page, keeps those with \<open>isOffline\<close>, and sends
  one request that deletes exactly these with \<open>force\<close> set; when none of the assets is
  offline it sends no such request. The first part holds when the service accepts the
  request for the libraries and answers each job request with 403 or a status that is not
  an error; the second when the service accepts the search requests and the pages end
  within the fuel.
\<close>

theorem trigger_offline_asset_removal_by_version:
  "(major (version g) = 1 \<and> minor (version g) < 116
      \<and> ok (server w (trace w) (libraries_request g))
      \<and> json (server w (trace w) (libraries_request g)) = Libraries libs
      \<and> answers (server w) (trace w @ [libraries_request g]) (map (remove_offline_request g) libs) = resps
      \<and> (\<forall>r \<in> set resps. status_code r = 403 \<or> ok r)
    \<longrightarrow> trigger_offline_asset_removal fuel g w =
          Some (Inr (), w\<lparr>trace := trace w @ libraries_request g # map (remove_offline_request g) libs,
                           log := log w @ admin_key_messages resps\<rparr>))
   \<and> ((1 < major (version g) \<or> (major (version g) = 1 \<and> 116 \<le> minor (version g)))
      \<and> list_all2 (\<lambda>r p. ok r \<and> json r = Items p)
           (answers (server w) (trace w) (search_requests g trashed_after (length ps))) (p # ps)
      \<and> last_page_short (min 1000 (number_of_assets_to_fetch_per_request g)) p ps
      \<and> length ps \<le> fuel
    \<longrightarrow> (\<exists>res w'. trigger_offline_asset_removal fuel g w = Some (res, w')
          \<and> trace w' = trace w @ search_requests g trashed_after (length ps)
               @ (if filter isOffline (concat (p # ps)) = [] then []
                  else [delete_request g True (map asset_id (filter isOffline (concat (p # ps))))])
          \<and> (filter isOffline (concat (p # ps)) = [] \<longrightarrow> res = Inr ())))"
  using removal_pre_116 [of g w libs resps fuel] removal_since_116 [of g w ps p fuel]
  by blast

theorem trigger_offline_asset_removal_by_version_witness:
  "trigger_offline_asset_removal 0 g_1_115 (fresh_world server_libraries) =
     Some (Inr (), (fresh_world server_libraries)\<lparr>
             trace := [\<lparr>req_method = GET, req_url = ''http://immich/api/libraries'', req_body = NoBody\<rparr>,
                       \<lparr>req_method = POST, req_url = ''http://immich/api/libraries/l1/removeOffline'', req_body = NoBody\<rparr>,
                       \<lparr>req_method = POST, req_url = ''http://immich/api/libraries/l2/removeOffline'', req_body = NoBody\<rparr>],
             log := [(FATAL, ''--sync-mode 2 requires an Admin User API key!'')]\<rparr>)
   \<and> (\<exists>res w'. trigger_offline_asset_removal 1 g_two_per_page (fresh_world server_trash) = Some (res, w')
         \<and> trace w' =
             [\<lparr>req_method = POST, req_url = ''http://immich/api/search/metadata'',
               req_body = Dict [(''trashedAfter'', JStr ''1970-01-01T00:00:00.000Z''), (''size'', JInt 2),
                                (''page'', JStr ''1'')]\<rparr>,
              \<lparr>req_method = POST, req_url = ''http://immich/api/search/metadata'',
               req_body = Dict [(''trashedAfter'', JStr ''1970-01-01T00:00:00.000Z''), (''size'', JInt 2),
                                (''page'', JInt 2)]\<rparr>,
              \<lparr>req_method = DELETE, req_url = ''http://immich/api/assets'',
               req_body = DeleteAssets True [''t1'', ''t3'']\<rparr>])"
proof -
  let ?w = "fresh_world server_libraries"
  let ?resps = "[\<lparr>status_code = 403, reason = ''Forbidden'', json = Empty\<rparr>,
                 \<lparr>status_code = 204, reason = ''No Content'', json = Empty\<rparr>]"
  have a1: "major (version g_1_115) = 1 \<and> minor (version g_1_115) < 116"
    by (simp add: g_1_115_def v_1_115_def)
  have a2: "ok (server ?w (trace ?w) (libraries_request g_1_115))"
    by (simp add: ok_def fresh_world_def server_libraries_def libraries_request_def)
  have a3: "json (server ?w (trace ?w) (libraries_request g_1_115)) = Libraries [''l1'', ''l2'']"
    by (simp add: fresh_world_def server_libraries_def libraries_request_def)
  have a4: "answers (server ?w) (trace ?w @ [libraries_request g_1_115])
              (map (remove_offline_request g_1_115) [''l1'', ''l2'']) = ?resps"
    by (simp add: fresh_world_def server_libraries_def remove_offline_request_def g_1_115_def g0_def)
  have a5: "\<forall>r \<in> set ?resps. status_code r = 403 \<or> ok r" by (simp add: ok_def)
  have first: "trigger_offline_asset_removal 0 g_1_115 ?w =
     Some (Inr (), ?w\<lparr>trace := trace ?w @ libraries_request g_1_115 # map (remove_offline_request g_1_115) [''l1'', ''l2''],
                     log := log ?w @ admin_key_messages ?resps\<rparr>)"
    using trigger_offline_asset_removal_by_version [of g_1_115 ?w "[''l1'', ''l2'']" ?resps 0] a1 a2 a3 a4 a5
    by blast
  let ?v = "fresh_world server_trash"
  let ?p = "[trashed ''t1'' True, trashed ''t2'' False]"
  let ?ps = "[[trashed ''t3'' True]]"
  have b1: "1 < major (version g_two_per_page) \<or>
            (major (version g_two_per_page) = 1 \<and> 116 \<le> minor (version g_two_per_page))"
    by (simp add: g_two_per_page_def g0_def)
  have b2: "list_all2 (\<lambda>r p. ok r \<and> json r = Items p)
           (answers (server ?v) (trace ?v) (search_requests g_two_per_page trashed_after (length ?ps))) (?p # ?ps)"
    by (simp add: search_requests_def search_request_def trashed_after_def g_two_per_page_def g0_def
        fresh_world_def server_trash_def ok_def Let_def)
  have b3: "last_page_short (min 1000 (number_of_assets_to_fetch_per_request g_two_per_page)) ?p ?ps"
    by (simp add: g_two_per_page_def g0_def)
  have b4: "length ?ps \<le> 1" by simp
  have second: "\<exists>res w'. trigger_offline_asset_removal 1 g_two_per_page ?v = Some (res, w')
          \<and> trace w' = trace ?v @ search_requests g_two_per_page trashed_after (length ?ps)
               @ (if filter isOffline (concat (?p # ?ps)) = [] then []
                  else [delete_request g_two_per_page True (map asset_id (filter isOffline (concat (?p # ?ps))))])
          \<and> (filter isOffline (concat (?p # ?ps)) = [] \<longrightarrow> res = Inr ())"
    using trigger_offline_asset_removal_by_version [of g_two_per_page ?v _ _ 1 ?ps ?p] b1 b2 b3 b4
    by blast
  have tr1: "trace ?w @ libraries_request g_1_115 # map (remove_offline_request g_1_115) [''l1'', ''l2''] =
      [\<lparr>req_method = GET, req_url = ''http://immich/api/libraries'', req_body = NoBody\<rparr>,
       \<lparr>req_method = POST, req_url = ''http://immich/api/libraries/l1/removeOffline'', req_body = NoBody\<rparr>,
       \<lparr>req_method = POST, req_url = ''http://immich/api/libraries/l2/removeOffline'', req_body = NoBody\<rparr>]"
    by (simp add: fresh_world_def libraries_request_def remove_offline_request_def g_1_115_def g0_def)
  have lg1: "log ?w @ admin_key_messages ?resps = [(FATAL, ''--sync-mode 2 requires an Admin User API key!'')]"
    by (simp add: fresh_world_def admin_key_messages_def)
  have tr2: "trace ?v @ search_requests g_two_per_page trashed_after (length ?ps)
               @ (if filter isOffline (concat (?p # ?ps)) = [] then []
                  else [delete_request g_two_per_page True (map asset_id (filter isOffline (concat (?p # ?ps))))]) =
             [\<lparr>req_method = POST, req_url = ''http://immich/api/search/metadata'',
               req_body = Dict [(''trashedAfter'', JStr ''1970-01-01T00:00:00.000Z''), (''size'', JInt 2),
                                (''page'', JStr ''1'')]\<rparr>,
              \<lparr>req_method = POST, req_url = ''http://immich/api/search/metadata'',
               req_body = Dict [(''trashedAfter'', JStr ''1970-01-01T00:00:00.000Z''), (''size'', JInt 2),
                                (''page'', JInt 2)]\<rparr>,
              \<lparr>req_method = DELETE, req_url = ''http://immich/api/assets'',
               req_body = DeleteAssets True [''t1'', ''t3'']\<rparr>]"
    by (simp add: search_requests_def search_request_def trashed_after_def delete_request_def
        g_two_per_page_def g0_def fresh_world_def trashed_def Let_def)
  from first second show ?thesis unfolding tr1 lg1 tr2 by blast
qed

end
